theory Spec2Isabelle
  imports Main "HOL-Library.AList"
begin

section \<open>Configuration (app/core/config.py)\<close>

text \<open>
  The fields of \<open>Settings\<close> that the authentication core reads. The signing algorithm
  (\<open>ALGORITHM\<close>) is fixed per deployment and is part of the token abstraction below.
\<close>

record settings =
  SECRET_KEY :: string
  ACCESS_TOKEN_EXPIRE_MINUTES :: int
  REFRESH_TOKEN_EXPIRE_DAYS :: int
  PASSWORD_MIN_LENGTH :: int
  PASSWORD_REQUIRE_UPPERCASE :: bool
  PASSWORD_REQUIRE_LOWERCASE :: bool
  PASSWORD_REQUIRE_NUMBERS :: bool
  PASSWORD_REQUIRE_SPECIAL :: bool
  MAX_LOGIN_ATTEMPTS :: int
  LOCKOUT_DURATION_MINUTES :: int

text \<open>
  A Python string whose characters matter one by one (a password) is the list of its
  Unicode code points, so that \<open>len\<close> counts code points. Addresses, names and keys
  are kept as \<open>string\<close>.
\<close>

type_synonym pystr = "nat list"

text \<open>
  What the code takes from its platform and libraries: the bcrypt context of passlib
  (\<open>pwd_context.hash\<close> draws a random salt, passed here as the first argument;
  \<open>pwd_context.verify\<close>), the parser \<open>uuid.UUID\<close> applied to a token claim, the offset
  of the server's local time from UTC in seconds (what \<open>datetime.fromtimestamp\<close> adds),
  and the predicates \<open>str.isupper\<close>, \<open>str.islower\<close> and \<open>str.isdigit\<close> of the Unicode
  database on one code point.
  Time is counted in whole seconds since the epoch; a \<open>timedelta\<close> is a number of seconds.
\<close>

datatype py_error = PyJWTError | TypeError | ValueError | AttributeError | IntegrityError

datatype jval = JInt int | JStr string | JBool bool | JNull

record platform =
  ctx_hash :: "string \<Rightarrow> pystr \<Rightarrow> string"
  ctx_verify :: "pystr \<Rightarrow> string \<Rightarrow> bool"
  uuid_parse :: "jval \<Rightarrow> py_error + string"
  tz_offset :: int
  py_isupper :: "nat \<Rightarrow> bool"
  py_islower :: "nat \<Rightarrow> bool"
  py_isdigit :: "nat \<Rightarrow> bool"

section \<open>Password policy (app/core/security.py, validate_password_strength)\<close>

text \<open>
  The entries of the \<open>errors\<close> list, one constructor per message of the source:
  \<open>TooShort n\<close> is "Password must be at least n characters long", the others are
  "Password must contain at least one uppercase letter / lowercase letter / number /
  special character". The special characters are the code points of the literal in the
  source.
\<close>

datatype violation = TooShort int | NoUppercase | NoLowercase | NoNumber | NoSpecial

definition isspecial :: "nat \<Rightarrow> bool" where
  "isspecial c \<longleftrightarrow> c \<in> set (map of_char ''!@#$%^&*()_+-=[]{}|;:,.<>?'')"

record password_validation =
  is_valid :: bool
  errors :: "violation list"
  strength_score :: int

definition validate_password_strength ::
  "platform \<Rightarrow> settings \<Rightarrow> pystr \<Rightarrow> password_validation" where
  "validate_password_strength px cfg password =
     (let errors0 = [];
          errors1 = (if int (length password) < PASSWORD_MIN_LENGTH cfg
                     then errors0 @ [TooShort (PASSWORD_MIN_LENGTH cfg)] else errors0);
          errors2 = (if PASSWORD_REQUIRE_UPPERCASE cfg \<and> \<not> list_ex (py_isupper px) password
                     then errors1 @ [NoUppercase] else errors1);
          errors3 = (if PASSWORD_REQUIRE_LOWERCASE cfg \<and> \<not> list_ex (py_islower px) password
                     then errors2 @ [NoLowercase] else errors2);
          errors4 = (if PASSWORD_REQUIRE_NUMBERS cfg \<and> \<not> list_ex (py_isdigit px) password
                     then errors3 @ [NoNumber] else errors3);
          errors5 = (if PASSWORD_REQUIRE_SPECIAL cfg \<and> \<not> list_ex isspecial password
                     then errors4 @ [NoSpecial] else errors4)
      in \<lparr> is_valid = (length errors5 = 0),
           errors = errors5,
           strength_score = max 0 (100 - int (length errors5) * 20) \<rparr>)"

section \<open>Signed tokens (app/core/security.py)\<close>

text \<open>
  A token payload is a dictionary from claim names to JSON values (integers, strings,
  booleans and null; a \<open>datetime\<close> under \<open>exp\<close>, \<open>iat\<close> or \<open>nbf\<close> is encoded by PyJWT as its
  whole epoch second), kept as the list of its items in insertion order:
  \<open>payload.get(k)\<close> is \<open>map_of payload k\<close>, and \<open>d.update(e)\<close> stores the items of \<open>e\<close> one
  after the other, in place where the key is present and at the end where it is new.
  A token string is either the serialisation of a payload signed under a key, or any
  other string.
\<close>

type_synonym claims = "(string \<times> jval) list"

definition dict_update :: "claims \<Rightarrow> claims \<Rightarrow> claims" where
  "dict_update d e = fold (\<lambda>(k, v). AList.update k v) e d"

datatype token = Signed string claims | Malformed string

definition jwt_encode :: "claims \<Rightarrow> string \<Rightarrow> token" where
  "jwt_encode payload key = Signed key payload"

text \<open>Python truthiness of a JSON value (\<open>if not x\<close>).\<close>

fun truthy :: "jval \<Rightarrow> bool" where
  "truthy (JInt n) = (n \<noteq> 0)"
| "truthy (JStr s) = (s \<noteq> [])"
| "truthy (JBool b) = b"
| "truthy JNull = False"

text \<open>
  Python's \<open>int(x)\<close> as PyJWT applies it to a time claim. On a string only an optional
  sign followed by ASCII digits is parsed; other spellings raise \<open>ValueError\<close> here.
\<close>

definition ascii_digit :: "char \<Rightarrow> bool" where
  "ascii_digit c \<longleftrightarrow> c \<in> set ''0123456789''"

fun digits_value :: "nat \<Rightarrow> string \<Rightarrow> nat option" where
  "digits_value acc [] = Some acc"
| "digits_value acc (c # cs) =
     (if ascii_digit c then digits_value (10 * acc + (of_char c - 48)) cs else None)"

definition int_of_string :: "string \<Rightarrow> int option" where
  "int_of_string s =
     (case s of
        [] \<Rightarrow> None
      | c # cs \<Rightarrow>
          if c = CHR ''-'' then (if cs = [] then None else map_option (\<lambda>n. - int n) (digits_value 0 cs))
          else if c = CHR ''+'' then (if cs = [] then None else map_option int (digits_value 0 cs))
          else map_option int (digits_value 0 s))"

fun py_int :: "jval \<Rightarrow> py_error + int" where
  "py_int (JInt n) = Inr n"
| "py_int (JBool b) = Inr (if b then 1 else 0)"
| "py_int JNull = Inl TypeError"
| "py_int (JStr s) = (case int_of_string s of None \<Rightarrow> Inl ValueError | Some n \<Rightarrow> Inr n)"

text \<open>
  PyJWT's validation of one time claim: \<open>int(payload[name])\<close> with \<open>ValueError\<close> turned into
  a \<open>PyJWTError\<close> (any other exception propagates), then the comparison with the clock.
\<close>

definition check_time_claim :: "claims \<Rightarrow> string \<Rightarrow> (int \<Rightarrow> bool) \<Rightarrow> py_error option" where
  "check_time_claim payload name bad =
     (case map_of payload name of
        None \<Rightarrow> None
      | Some v \<Rightarrow>
          (case py_int v of
             Inl e \<Rightarrow> Some (if e = ValueError then PyJWTError else e)
           | Inr n \<Rightarrow> if bad n then Some PyJWTError else None))"

text \<open>
  \<open>jwt.decode(token, key, algorithms=[alg])\<close>: the signature check, then the registered
  claims PyJWT validates by default when no audience or issuer is passed: \<open>iat\<close> and \<open>nbf\<close>
  not in the future, \<open>exp\<close> in the future, no non-empty \<open>aud\<close>.
\<close>

definition jwt_decode :: "token \<Rightarrow> string \<Rightarrow> int \<Rightarrow> py_error + claims" where
  "jwt_decode tok key now =
     (case tok of
        Malformed s \<Rightarrow> Inl PyJWTError
      | Signed k payload \<Rightarrow>
          if k \<noteq> key then Inl PyJWTError
          else (case check_time_claim payload ''iat'' (\<lambda>n. n > now) of
                  Some e \<Rightarrow> Inl e
                | None \<Rightarrow>
                 (case check_time_claim payload ''nbf'' (\<lambda>n. n > now) of
                    Some e \<Rightarrow> Inl e
                  | None \<Rightarrow>
                   (case check_time_claim payload ''exp'' (\<lambda>n. n \<le> now) of
                      Some e \<Rightarrow> Inl e
                    | None \<Rightarrow>
                     (case map_of payload ''aud'' of
                        None \<Rightarrow> Inr payload
                      | Some a \<Rightarrow> if truthy a then Inl PyJWTError else Inr payload)))))"

text \<open>
  \<open>datetime.fromtimestamp(x)\<close>: the naive local time of epoch second \<open>x\<close>, as seconds of
  wall-clock time; it raises outside the years 1 to 9999 and on a value that is no number.
\<close>

definition min_timestamp :: int where "min_timestamp = - 62135596800"
definition max_timestamp :: int where "max_timestamp = 253402300799"

fun fromtimestamp :: "int \<Rightarrow> jval \<Rightarrow> py_error + int" where
  "fromtimestamp tz (JInt n) =
     (if min_timestamp \<le> n + tz \<and> n + tz \<le> max_timestamp then Inr (n + tz) else Inl ValueError)"
| "fromtimestamp tz (JBool b) = Inr ((if b then 1 else 0) + tz)"
| "fromtimestamp tz (JStr s) = Inl TypeError"
| "fromtimestamp tz JNull = Inl TypeError"

text \<open>\<open>expires_delta\<close> is used only when truthy: \<open>None\<close> and \<open>timedelta(0)\<close> take the default.\<close>

definition expire_at :: "int \<Rightarrow> int option \<Rightarrow> int \<Rightarrow> int" where
  "expire_at now expires_delta dflt =
     (case expires_delta of
        None \<Rightarrow> now + dflt
      | Some d \<Rightarrow> if d \<noteq> 0 then now + d else now + dflt)"

definition create_access_token ::
  "settings \<Rightarrow> int \<Rightarrow> string \<Rightarrow> int option \<Rightarrow> claims option \<Rightarrow> token" where
  "create_access_token cfg now subject expires_delta additional_claims =
     (let expire = expire_at now expires_delta (60 * ACCESS_TOKEN_EXPIRE_MINUTES cfg);
          to_encode = [(''exp'', JInt expire), (''sub'', JStr subject),
                       (''type'', JStr ''access''), (''iat'', JInt now)];
          to_encode' = (case additional_claims of
                          None \<Rightarrow> to_encode
                        | Some extra \<Rightarrow> dict_update to_encode extra)
      in jwt_encode to_encode' (SECRET_KEY cfg))"

text \<open>The \<open>jti\<close> drawn by \<open>secrets.token_urlsafe(32)\<close> is an argument.\<close>

definition create_refresh_token ::
  "settings \<Rightarrow> int \<Rightarrow> string \<Rightarrow> string \<Rightarrow> int option \<Rightarrow> token" where
  "create_refresh_token cfg now jti subject expires_delta =
     (let expire = expire_at now expires_delta (86400 * REFRESH_TOKEN_EXPIRE_DAYS cfg);
          to_encode = [(''exp'', JInt expire), (''sub'', JStr subject),
                       (''type'', JStr ''refresh''), (''iat'', JInt now),
                       (''jti'', JStr jti)]
      in jwt_encode to_encode (SECRET_KEY cfg))"

definition generate_password_reset_token :: "settings \<Rightarrow> int \<Rightarrow> string \<Rightarrow> token" where
  "generate_password_reset_token cfg now email =
     (let delta = 3600;
          expires = now + delta;
          to_encode = [(''exp'', JInt expires), (''sub'', JStr email),
                       (''type'', JStr ''password_reset''), (''iat'', JInt now)]
      in jwt_encode to_encode (SECRET_KEY cfg))"

definition generate_email_verification_token :: "settings \<Rightarrow> int \<Rightarrow> string \<Rightarrow> token" where
  "generate_email_verification_token cfg now email =
     (let delta = 7 * 86400;
          expires = now + delta;
          to_encode = [(''exp'', JInt expires), (''sub'', JStr email),
                       (''type'', JStr ''email_verification''), (''iat'', JInt now)]
      in jwt_encode to_encode (SECRET_KEY cfg))"

text \<open>
  \<open>verify_token\<close>: \<open>Inr None\<close> is the returned \<open>None\<close>, \<open>Inr (Some payload)\<close> the returned
  payload, \<open>Inl e\<close> an exception that leaves the function. Only \<open>jwt.PyJWTError\<close> is caught.
\<close>

definition verify_token ::
  "settings \<Rightarrow> platform \<Rightarrow> int \<Rightarrow> token \<Rightarrow> string \<Rightarrow> py_error + claims option" where
  "verify_token cfg px now tok token_type =
     (case jwt_decode tok (SECRET_KEY cfg) now of
        Inl e \<Rightarrow> if e = PyJWTError then Inr None else Inl e
      | Inr payload \<Rightarrow>
          if map_of payload ''type'' \<noteq> Some (JStr token_type) then Inr None
          else (case fromtimestamp (tz_offset px)
                       (case map_of payload ''exp'' of None \<Rightarrow> JInt 0 | Some v \<Rightarrow> v) of
                  Inl e \<Rightarrow> Inl e
                | Inr local_exp \<Rightarrow> if now > local_exp then Inr None else Inr (Some payload)))"

definition verify_password_reset_token ::
  "settings \<Rightarrow> int \<Rightarrow> token \<Rightarrow> py_error + jval option" where
  "verify_password_reset_token cfg now tok =
     (case jwt_decode tok (SECRET_KEY cfg) now of
        Inl e \<Rightarrow> if e = PyJWTError then Inr None else Inl e
      | Inr payload \<Rightarrow>
          if map_of payload ''type'' \<noteq> Some (JStr ''password_reset'') then Inr None
          else Inr (map_of payload ''sub''))"

definition verify_email_verification_token ::
  "settings \<Rightarrow> int \<Rightarrow> token \<Rightarrow> py_error + jval option" where
  "verify_email_verification_token cfg now tok =
     (case jwt_decode tok (SECRET_KEY cfg) now of
        Inl e \<Rightarrow> if e = PyJWTError then Inr None else Inl e
      | Inr payload \<Rightarrow>
          if map_of payload ''type'' \<noteq> Some (JStr ''email_verification'') then Inr None
          else Inr (map_of payload ''sub''))"

section \<open>Tables (app/models/user.py)\<close>

text \<open>
  The columns the service layer reads or writes. Row identifiers are UUIDs in their
  textual form, so \<open>str(user.id)\<close> is the identifier itself. Columns generated by the
  database and never read by the services (\<open>created_at\<close>, the identifiers of audit and
  reset rows) are left out.
\<close>

datatype role = SUPERADMIN | ADMIN1 | ADMIN2 | ADMIN3 | USER

fun role_value :: "role \<Rightarrow> string" where
  "role_value SUPERADMIN = ''superadmin''"
| "role_value ADMIN1 = ''admin1''"
| "role_value ADMIN2 = ''admin2''"
| "role_value ADMIN3 = ''admin3''"
| "role_value USER = ''user''"

record user =
  u_id :: string
  email :: string
  password_hash :: string
  first_name :: string
  last_name :: string
  avatar_url :: "string option"
  role :: role
  is_active :: bool
  is_verified :: bool
  is_locked :: bool
  updated_at :: int
  last_login :: "int option"
  password_changed_at :: int
  failed_login_attempts :: int
  locked_until :: "int option"

record user_session =
  s_id :: string
  s_user_id :: string
  refresh_token :: token
  device_info :: "string option"
  s_ip_address :: "string option"
  s_user_agent :: "string option"
  s_expires_at :: int
  last_used_at :: int
  s_is_active :: bool

record password_reset =
  pr_user_id :: string
  pr_token :: token
  is_used :: bool
  pr_expires_at :: int
  used_at :: "int option"
  pr_ip_address :: "string option"
  pr_user_agent :: "string option"

record audit_log =
  a_user_id :: "string option"
  action :: string
  resource :: "string option"
  resource_id :: "string option"
  old_values :: "(string \<times> jval) list option"
  new_values :: "(string \<times> jval) list option"
  a_ip_address :: "string option"
  a_user_agent :: "string option"

record db =
  users :: "user list"
  sessions :: "user_session list"
  password_resets :: "password_reset list"
  audit_logs :: "audit_log list"

text \<open>\<open>UserSession.is_expired\<close>, \<open>PasswordReset.is_expired\<close> and \<open>PasswordReset.is_valid\<close>.\<close>

definition session_is_expired :: "int \<Rightarrow> user_session \<Rightarrow> bool" where
  "session_is_expired now s \<longleftrightarrow> now > s_expires_at s"

definition reset_is_expired :: "int \<Rightarrow> password_reset \<Rightarrow> bool" where
  "reset_is_expired now r \<longleftrightarrow> now > pr_expires_at r"

definition reset_is_valid :: "int \<Rightarrow> password_reset \<Rightarrow> bool" where
  "reset_is_valid now r \<longleftrightarrow> \<not> is_used r \<and> \<not> reset_is_expired now r"

text \<open>
  A row fetched with \<open>.first()\<close> is the first row of the table that satisfies the filter;
  assigning to its attributes and committing writes that row back.
\<close>

fun update_first :: "('a \<Rightarrow> bool) \<Rightarrow> ('a \<Rightarrow> 'a) \<Rightarrow> 'a list \<Rightarrow> 'a list" where
  "update_first P f [] = []"
| "update_first P f (x # xs) = (if P x then f x # xs else x # update_first P f xs)"

text \<open>
  \<open>query(UserSession).filter(UserSession.user_id == uid).update({"is_active": False})\<close>
\<close>

definition invalidate_user_sessions :: "db \<Rightarrow> string \<Rightarrow> db" where
  "invalidate_user_sessions d uid =
     d\<lparr>sessions := map (\<lambda>s. if s_user_id s = uid then s\<lparr>s_is_active := False\<rparr> else s)
                        (sessions d)\<rparr>"

section \<open>User service (app/services/user_service.py)\<close>

text \<open>\<open>str.lower\<close> on ASCII.\<close>

definition ascii_upper :: "char \<Rightarrow> bool" where
  "ascii_upper c \<longleftrightarrow> c \<in> set ''ABCDEFGHIJKLMNOPQRSTUVWXYZ''"

definition lower_char :: "char \<Rightarrow> char" where
  "lower_char c = (if ascii_upper c then char_of (of_char c + (32::nat)) else c)"

definition str_lower :: "string \<Rightarrow> string" where
  "str_lower s = map lower_char s"

definition get_user_by_id :: "db \<Rightarrow> string \<Rightarrow> user option" where
  "get_user_by_id d user_id = find (\<lambda>u. u_id u = user_id) (users d)"

definition get_user_by_email :: "db \<Rightarrow> string \<Rightarrow> user option" where
  "get_user_by_email d e = find (\<lambda>u. email u = str_lower e) (users d)"

definition log_audit_action ::
  "db \<Rightarrow> string \<Rightarrow> string option \<Rightarrow> string option \<Rightarrow> user option \<Rightarrow>
   (string \<times> jval) list option \<Rightarrow> (string \<times> jval) list option \<Rightarrow>
   string option \<Rightarrow> string option \<Rightarrow> db" where
  "log_audit_action d act res res_id usr old_vals new_vals ip_address user_agent =
     d\<lparr>audit_logs := audit_logs d @
        [\<lparr> a_user_id = map_option u_id usr, action = act, resource = res,
            resource_id = res_id, old_values = old_vals, new_values = new_vals,
            a_ip_address = ip_address, a_user_agent = user_agent \<rparr>]\<rparr>"

record user_create =
  uc_email :: string
  uc_password :: pystr
  uc_first_name :: string
  uc_last_name :: string
  uc_role :: role
  uc_is_active :: bool

text \<open>
  \<open>create_user\<close>: both \<open>raise ValueError\<close> are \<open>Inl ValueError\<close>. The identifier drawn by
  \<open>uuid.uuid4\<close> and the salt are arguments; a primary key already present fails the insert.
\<close>

definition create_user ::
  "platform \<Rightarrow> settings \<Rightarrow> int \<Rightarrow> string \<Rightarrow> string \<Rightarrow> db \<Rightarrow> user_create \<Rightarrow> user option \<Rightarrow>
   py_error + (db \<times> user)" where
  "create_user px cfg now new_id salt d uc created_by =
     (case get_user_by_email d (uc_email uc) of
        Some existing_user \<Rightarrow> Inl ValueError
      | None \<Rightarrow>
          if \<not> is_valid (validate_password_strength px cfg (uc_password uc)) then Inl ValueError
          else
            (let usr = \<lparr> u_id = new_id, email = str_lower (uc_email uc),
                         password_hash = ctx_hash px salt (uc_password uc),
                         first_name = uc_first_name uc, last_name = uc_last_name uc,
                         avatar_url = None, role = uc_role uc, is_active = uc_is_active uc,
                         is_verified = False, is_locked = False, updated_at = now,
                         last_login = None, password_changed_at = now,
                         failed_login_attempts = 0, locked_until = None \<rparr>
             in if new_id \<in> set (map u_id (users d)) then Inl IntegrityError
                else Inr (log_audit_action (d\<lparr>users := users d @ [usr]\<rparr>)
                            ''user_created'' (Some ''user'') (Some (u_id usr)) created_by None
                            (Some [(''email'', JStr (email usr)),
                                   (''first_name'', JStr (first_name usr)),
                                   (''last_name'', JStr (last_name usr)),
                                   (''role'', JStr (role_value (role usr)))])
                            None None,
                          usr)))"

text \<open>
  \<open>UserUpdate\<close> and \<open>UserUpdateProfile\<close>: a field is unset (\<open>None\<close>), or set to a value or
  to null (\<open>Some None\<close>). A null written to a column declared \<open>nullable=False\<close> fails the
  commit.
\<close>

record user_update =
  uu_first_name :: "string option option"
  uu_last_name :: "string option option"
  uu_avatar_url :: "string option option"
  uu_is_active :: "bool option option"
  uu_role :: "role option option"

record profile_update =
  pu_first_name :: "string option option"
  pu_last_name :: "string option option"
  pu_avatar_url :: "string option option"

definition set_field :: "'a option option \<Rightarrow> 'a \<Rightarrow> 'a" where
  "set_field upd cur = (case upd of Some (Some v) \<Rightarrow> v | _ \<Rightarrow> cur)"

definition jopt :: "string option \<Rightarrow> jval" where
  "jopt x = (case x of None \<Rightarrow> JNull | Some s \<Rightarrow> JStr s)"

definition update_user ::
  "int \<Rightarrow> db \<Rightarrow> string \<Rightarrow> user_update \<Rightarrow> user option \<Rightarrow> py_error + (db \<times> user option)" where
  "update_user now d user_id upd updated_by =
     (case get_user_by_id d user_id of
        None \<Rightarrow> Inr (d, None)
      | Some usr \<Rightarrow>
          if uu_first_name upd = Some None \<or> uu_last_name upd = Some None \<or>
             uu_is_active upd = Some None \<or> uu_role upd = Some None
          then Inl IntegrityError
          else
            (let old_vals = [(''first_name'', JStr (first_name usr)),
                             (''last_name'', JStr (last_name usr)),
                             (''role'', JStr (role_value (role usr))),
                             (''is_active'', JBool (is_active usr))];
                 usr' = usr\<lparr> first_name := set_field (uu_first_name upd) (first_name usr),
                             last_name := set_field (uu_last_name upd) (last_name usr),
                             avatar_url := (case uu_avatar_url upd of
                                              None \<Rightarrow> avatar_url usr | Some v \<Rightarrow> v),
                             is_active := set_field (uu_is_active upd) (is_active usr),
                             role := set_field (uu_role upd) (role usr),
                             updated_at := now \<rparr>;
                 d' = d\<lparr>users := update_first (\<lambda>u. u_id u = user_id) (\<lambda>u. usr') (users d)\<rparr>;
                 new_vals = [(''first_name'', JStr (first_name usr')),
                             (''last_name'', JStr (last_name usr')),
                             (''role'', JStr (role_value (role usr'))),
                             (''is_active'', JBool (is_active usr'))]
             in Inr (log_audit_action d' ''user_updated'' (Some ''user'') (Some (u_id usr'))
                       updated_by (Some old_vals) (Some new_vals) None None,
                     Some usr')))"

definition update_user_profile ::
  "int \<Rightarrow> db \<Rightarrow> string \<Rightarrow> profile_update \<Rightarrow> py_error + (db \<times> user option)" where
  "update_user_profile now d user_id upd =
     (case get_user_by_id d user_id of
        None \<Rightarrow> Inr (d, None)
      | Some usr \<Rightarrow>
          if pu_first_name upd = Some None \<or> pu_last_name upd = Some None
          then Inl IntegrityError
          else
            (let old_vals = [(''first_name'', JStr (first_name usr)),
                             (''last_name'', JStr (last_name usr)),
                             (''avatar_url'', jopt (avatar_url usr))];
                 usr' = usr\<lparr> first_name := set_field (pu_first_name upd) (first_name usr),
                             last_name := set_field (pu_last_name upd) (last_name usr),
                             avatar_url := (case pu_avatar_url upd of
                                              None \<Rightarrow> avatar_url usr | Some v \<Rightarrow> v),
                             updated_at := now \<rparr>;
                 d' = d\<lparr>users := update_first (\<lambda>u. u_id u = user_id) (\<lambda>u. usr') (users d)\<rparr>;
                 new_vals = [(''first_name'', JStr (first_name usr')),
                             (''last_name'', JStr (last_name usr')),
                             (''avatar_url'', jopt (avatar_url usr'))]
             in Inr (log_audit_action d' ''profile_updated'' (Some ''user'') (Some (u_id usr'))
                       (Some usr') (Some old_vals) (Some new_vals) None None,
                     Some usr')))"

record password_change =
  current_password :: pystr
  new_password :: pystr

definition change_password ::
  "platform \<Rightarrow> settings \<Rightarrow> int \<Rightarrow> string \<Rightarrow> db \<Rightarrow> string \<Rightarrow> password_change \<Rightarrow>
   py_error + (db \<times> bool)" where
  "change_password px cfg now salt d user_id pc =
     (case get_user_by_id d user_id of
        None \<Rightarrow> Inr (d, False)
      | Some usr \<Rightarrow>
          if \<not> ctx_verify px (current_password pc) (password_hash usr) then Inl ValueError
          else if \<not> is_valid (validate_password_strength px cfg (new_password pc))
          then Inl ValueError
          else
            (let usr' = usr\<lparr> password_hash := ctx_hash px salt (new_password pc),
                             password_changed_at := now, updated_at := now \<rparr>;
                 d1 = d\<lparr>users := update_first (\<lambda>u. u_id u = user_id) (\<lambda>u. usr') (users d)\<rparr>;
                 d2 = invalidate_user_sessions d1 user_id
             in Inr (log_audit_action d2 ''password_changed'' (Some ''user'') (Some (u_id usr'))
                       (Some usr') None None None None,
                     True)))"

definition delete_user :: "int \<Rightarrow> db \<Rightarrow> string \<Rightarrow> user option \<Rightarrow> db \<times> bool" where
  "delete_user now d user_id deleted_by =
     (case get_user_by_id d user_id of
        None \<Rightarrow> (d, False)
      | Some usr \<Rightarrow>
          (let usr' = usr\<lparr> is_active := False, updated_at := now \<rparr>;
               d1 = d\<lparr>users := update_first (\<lambda>u. u_id u = user_id) (\<lambda>u. usr') (users d)\<rparr>;
               d2 = invalidate_user_sessions d1 user_id
           in (log_audit_action d2 ''user_deleted'' (Some ''user'') (Some (u_id usr'))
                 deleted_by None None None None,
               True)))"

definition lock_user :: "int \<Rightarrow> db \<Rightarrow> string \<Rightarrow> user option \<Rightarrow> db \<times> bool" where
  "lock_user now d user_id locked_by =
     (case get_user_by_id d user_id of
        None \<Rightarrow> (d, False)
      | Some usr \<Rightarrow>
          (let usr' = usr\<lparr> is_locked := True, locked_until := None, updated_at := now \<rparr>;
               d1 = d\<lparr>users := update_first (\<lambda>u. u_id u = user_id) (\<lambda>u. usr') (users d)\<rparr>;
               d2 = invalidate_user_sessions d1 user_id
           in (log_audit_action d2 ''user_locked'' (Some ''user'') (Some (u_id usr'))
                 locked_by None None None None,
               True)))"

definition unlock_user :: "int \<Rightarrow> db \<Rightarrow> string \<Rightarrow> user option \<Rightarrow> db \<times> bool" where
  "unlock_user now d user_id unlocked_by =
     (case get_user_by_id d user_id of
        None \<Rightarrow> (d, False)
      | Some usr \<Rightarrow>
          (let usr' = usr\<lparr> is_locked := False, locked_until := None,
                           failed_login_attempts := 0, updated_at := now \<rparr>;
               d1 = d\<lparr>users := update_first (\<lambda>u. u_id u = user_id) (\<lambda>u. usr') (users d)\<rparr>
           in (log_audit_action d1 ''user_unlocked'' (Some ''user'') (Some (u_id usr'))
                 unlocked_by None None None None,
               True)))"

section \<open>Authentication service (app/services/auth_service.py)\<close>

text \<open>
  The messages the service returns beside its result. \<open>AccountLocked m\<close> is "Account is
  locked. Try again in m minutes", \<open>PasswordValidationFailed es\<close> carries the joined
  violations.
\<close>

datatype message =
    InvalidEmailOrPassword
  | AccountLocked int
  | AccountPermanentlyLocked
  | AccountDeactivated
  | InvalidOrExpiredRefreshToken
  | InvalidRefreshToken
  | UserNotFoundOrInactive
  | InvalidOrExpiredResetToken
  | UserNotFound
  | PasswordValidationFailed "violation list"

record login_request =
  lr_email :: string
  lr_password :: pystr
  remember_me :: bool

text \<open>
  \<open>authenticate_user\<close> returns the updated tables with its pair \<open>(user, error_message)\<close>.
  The reads of the clock within one call are one instant \<open>now\<close>;
  \<open>remaining_time.seconds // 60\<close> is the seconds component of the difference, in minutes.
\<close>

definition authenticate_user ::
  "platform \<Rightarrow> settings \<Rightarrow> int \<Rightarrow> db \<Rightarrow> login_request \<Rightarrow> string option \<Rightarrow> string option \<Rightarrow>
   db \<times> user option \<times> message option" where
  "authenticate_user px cfg now d req ip_address user_agent =
     (case get_user_by_email d (lr_email req) of
        None \<Rightarrow> (d, None, Some InvalidEmailOrPassword)
      | Some usr \<Rightarrow>
          if is_locked usr \<and> (case locked_until usr of None \<Rightarrow> False | Some lu \<Rightarrow> now < lu)
          then (d, None, Some (AccountLocked (((the (locked_until usr) - now) mod 86400) div 60)))
          else if is_locked usr \<and> locked_until usr = None
          then (d, None, Some AccountPermanentlyLocked)
          else if \<not> is_active usr then (d, None, Some AccountDeactivated)
          else if \<not> ctx_verify px (lr_password req) (password_hash usr) then
            (let usr1 = usr\<lparr>failed_login_attempts := failed_login_attempts usr + 1\<rparr>;
                 lock = (failed_login_attempts usr1 \<ge> MAX_LOGIN_ATTEMPTS cfg);
                 usr2 = (if lock
                         then usr1\<lparr> is_locked := True,
                                    locked_until := Some (now + 60 * LOCKOUT_DURATION_MINUTES cfg) \<rparr>
                         else usr1);
                 d1 = d\<lparr>users := update_first (\<lambda>u. email u = str_lower (lr_email req))
                                      (\<lambda>u. usr2) (users d)\<rparr>;
                 d2 = (if lock
                       then log_audit_action d1 ''account_locked_failed_attempts'' (Some ''user'')
                              (Some (u_id usr2)) (Some usr2) None None ip_address user_agent
                       else d1);
                 d3 = log_audit_action d2 ''login_failed'' (Some ''user'') (Some (u_id usr2))
                        (Some usr2) None (Some [(''reason'', JStr ''invalid_password'')])
                        ip_address user_agent
             in (d3, None, Some InvalidEmailOrPassword))
          else
            (let usr1 = (if failed_login_attempts usr > 0
                         then usr\<lparr>failed_login_attempts := 0\<rparr> else usr);
                 usr2 = (if is_locked usr1 \<and>
                            (case locked_until usr1 of None \<Rightarrow> False | Some lu \<Rightarrow> now \<ge> lu)
                         then usr1\<lparr> is_locked := False, locked_until := None \<rparr>
                         else usr1);
                 usr3 = usr2\<lparr>last_login := Some now\<rparr>;
                 d1 = d\<lparr>users := update_first (\<lambda>u. email u = str_lower (lr_email req))
                                      (\<lambda>u. usr3) (users d)\<rparr>;
                 d2 = log_audit_action d1 ''login_successful'' (Some ''user'') (Some (u_id usr3))
                        (Some usr3) None None ip_address user_agent
             in (d2, Some usr3, None)))"

text \<open>
  \<open>create_user_session\<close>: the \<open>jti\<close> and the session identifier are arguments. The columns
  \<open>id\<close> and \<open>refresh_token\<close> are unique: an insert that repeats one fails the commit.
\<close>

definition create_user_session ::
  "settings \<Rightarrow> int \<Rightarrow> string \<Rightarrow> string \<Rightarrow> db \<Rightarrow> user \<Rightarrow> bool \<Rightarrow> string option \<Rightarrow>
   string option \<Rightarrow> string option \<Rightarrow> py_error + (db \<times> token \<times> token)" where
  "create_user_session cfg now jti new_id d usr remember dev_info ip_address user_agent =
     (let refresh_token_expires =
            86400 * (REFRESH_TOKEN_EXPIRE_DAYS cfg * (if remember then 2 else 1));
          rtok = create_refresh_token cfg now jti (u_id usr) (Some refresh_token_expires);
          sess = \<lparr> s_id = new_id, s_user_id = u_id usr, refresh_token = rtok,
                   device_info = dev_info, s_ip_address = ip_address,
                   s_user_agent = user_agent, s_expires_at = now + refresh_token_expires,
                   last_used_at = now, s_is_active = True \<rparr>
      in if rtok \<in> set (map refresh_token (sessions d)) \<or> new_id \<in> set (map s_id (sessions d))
         then Inl IntegrityError
         else
           (let d1 = d\<lparr>sessions := sessions d @ [sess]\<rparr>;
                atok = create_access_token cfg now (u_id usr) None
                         (Some [(''email'', JStr (email usr)),
                                (''role'', JStr (role_value (role usr))),
                                (''session_id'', JStr (s_id sess))])
            in Inr (d1, atok, rtok)))"

text \<open>
  \<open>refresh_access_token\<close> returns the pair \<open>(access_token, error_message)\<close>. A verified
  payload holds the claim \<open>type\<close>, so \<open>not payload\<close> is false on it.
\<close>

definition refresh_access_token ::
  "platform \<Rightarrow> settings \<Rightarrow> int \<Rightarrow> db \<Rightarrow> token \<Rightarrow> string option \<Rightarrow> string option \<Rightarrow>
   py_error + (db \<times> token option \<times> message option)" where
  "refresh_access_token px cfg now d rtok ip_address user_agent =
     (case verify_token cfg px now rtok ''refresh'' of
        Inl e \<Rightarrow> Inl e
      | Inr None \<Rightarrow> Inr (d, None, Some InvalidOrExpiredRefreshToken)
      | Inr (Some payload) \<Rightarrow>
          (case map_of payload ''sub'' of
             None \<Rightarrow> Inr (d, None, Some InvalidRefreshToken)
           | Some user_id \<Rightarrow>
               if \<not> truthy user_id then Inr (d, None, Some InvalidRefreshToken)
               else
                 (case find (\<lambda>s. refresh_token s = rtok \<and> s_is_active s) (sessions d) of
                    None \<Rightarrow> Inr (d, None, Some InvalidOrExpiredRefreshToken)
                  | Some sess \<Rightarrow>
                      if session_is_expired now sess
                      then Inr (d, None, Some InvalidOrExpiredRefreshToken)
                      else
                        (case uuid_parse px user_id of
                           Inl e \<Rightarrow> Inl e
                         | Inr uid \<Rightarrow>
                             (case get_user_by_id d uid of
                                None \<Rightarrow> Inr (d, None, Some UserNotFoundOrInactive)
                              | Some usr \<Rightarrow>
                                  if \<not> is_active usr
                                  then Inr (d, None, Some UserNotFoundOrInactive)
                                  else
                                    (let d1 = d\<lparr>sessions :=
                                                 update_first
                                                   (\<lambda>s. refresh_token s = rtok \<and> s_is_active s)
                                                   (\<lambda>s. s\<lparr>last_used_at := now\<rparr>) (sessions d)\<rparr>;
                                         atok = create_access_token cfg now (u_id usr) None
                                                  (Some [(''email'', JStr (email usr)),
                                                         (''role'', JStr (role_value (role usr))),
                                                         (''session_id'', JStr (s_id sess))]);
                                         d2 = log_audit_action d1 ''token_refreshed''
                                                (Some ''user'') (Some (u_id usr)) (Some usr)
                                                None None ip_address user_agent
                                     in Inr (d2, Some atok, None)))))))"

text \<open>\<open>if refresh_token:\<close> is false on \<open>None\<close> and on the empty string.\<close>

definition token_given :: "token option \<Rightarrow> bool" where
  "token_given t \<longleftrightarrow> (case t of None \<Rightarrow> False | Some tok \<Rightarrow> tok \<noteq> Malformed [])"

definition logout_user ::
  "db \<Rightarrow> user \<Rightarrow> token option \<Rightarrow> bool \<Rightarrow> string option \<Rightarrow> string option \<Rightarrow> db \<times> bool" where
  "logout_user d usr rtok logout_all_devices ip_address user_agent =
     (let (d1, act) =
            (if logout_all_devices
             then (invalidate_user_sessions d (u_id usr), ''logout_all_devices'')
             else
               (if token_given rtok
                then d\<lparr>sessions :=
                         map (\<lambda>s. if s_user_id s = u_id usr \<and> refresh_token s = the rtok
                                   then s\<lparr>s_is_active := False\<rparr> else s) (sessions d)\<rparr>
                else invalidate_user_sessions d (u_id usr),
                ''logout''))
      in (log_audit_action d1 act (Some ''user'') (Some (u_id usr)) (Some usr) None None
            ip_address user_agent,
          True))"

text \<open>
  \<open>request_password_reset\<close>: the column \<open>token\<close> of the reset table is unique, so an
  insert that repeats a token fails the commit.
\<close>

definition request_password_reset ::
  "settings \<Rightarrow> int \<Rightarrow> db \<Rightarrow> string \<Rightarrow> string option \<Rightarrow> string option \<Rightarrow> py_error + (db \<times> bool)" where
  "request_password_reset cfg now d e ip_address user_agent =
     (case get_user_by_email d e of
        None \<Rightarrow> Inr (d, True)
      | Some usr \<Rightarrow>
          if \<not> is_active usr then Inr (d, True)
          else
            (let reset_token = generate_password_reset_token cfg now (email usr);
                 pr = \<lparr> pr_user_id = u_id usr, pr_token = reset_token, is_used = False,
                        pr_expires_at = now + 3600, used_at = None,
                        pr_ip_address = ip_address, pr_user_agent = user_agent \<rparr>
             in if reset_token \<in> set (map pr_token (password_resets d)) then Inl IntegrityError
                else Inr (log_audit_action (d\<lparr>password_resets := password_resets d @ [pr]\<rparr>)
                            ''password_reset_requested'' (Some ''user'') (Some (u_id usr))
                            (Some usr) None None ip_address user_agent,
                          True)))"

text \<open>
  \<open>reset_password\<close> returns the pair \<open>(success, error_message)\<close>. \<open>get_user_by_email\<close>
  calls \<open>email.lower()\<close>, which a claim \<open>sub\<close> that is no string does not have.
\<close>

definition reset_password ::
  "platform \<Rightarrow> settings \<Rightarrow> int \<Rightarrow> string \<Rightarrow> db \<Rightarrow> token \<Rightarrow> pystr \<Rightarrow> string option \<Rightarrow>
   string option \<Rightarrow> py_error + (db \<times> bool \<times> message option)" where
  "reset_password px cfg now salt d tok new_pw ip_address user_agent =
     (case verify_password_reset_token cfg now tok of
        Inl e \<Rightarrow> Inl e
      | Inr None \<Rightarrow> Inr (d, False, Some InvalidOrExpiredResetToken)
      | Inr (Some e) \<Rightarrow>
          if \<not> truthy e then Inr (d, False, Some InvalidOrExpiredResetToken)
          else
            (case find (\<lambda>r. pr_token r = tok \<and> \<not> is_used r) (password_resets d) of
               None \<Rightarrow> Inr (d, False, Some InvalidOrExpiredResetToken)
             | Some pr \<Rightarrow>
                 if \<not> reset_is_valid now pr then Inr (d, False, Some InvalidOrExpiredResetToken)
                 else
                   (case e of
                      JStr addr \<Rightarrow>
                        (case get_user_by_email d addr of
                           None \<Rightarrow> Inr (d, False, Some UserNotFound)
                         | Some usr \<Rightarrow>
                             (let password_validation = validate_password_strength px cfg new_pw
                              in if \<not> is_valid password_validation
                                 then Inr (d, False,
                                           Some (PasswordValidationFailed (errors password_validation)))
                                 else
                                   (let usr' = usr\<lparr> password_hash := ctx_hash px salt new_pw,
                                                    password_changed_at := now,
                                                    updated_at := now \<rparr>;
                                        d1 = d\<lparr>users := update_first
                                                            (\<lambda>u. email u = str_lower addr)
                                                            (\<lambda>u. usr') (users d)\<rparr>;
                                        d2 = d1\<lparr>password_resets :=
                                                  update_first (\<lambda>r. pr_token r = tok \<and> \<not> is_used r)
                                                    (\<lambda>r. r\<lparr>is_used := True, used_at := Some now\<rparr>)
                                                    (password_resets d1)\<rparr>;
                                        d3 = invalidate_user_sessions d2 (u_id usr')
                                    in Inr (log_audit_action d3 ''password_reset_completed''
                                              (Some ''user'') (Some (u_id usr')) (Some usr')
                                              None None ip_address user_agent,
                                            True, None))))
                    | _ \<Rightarrow> Inl AttributeError)))"

definition revoke_session ::
  "db \<Rightarrow> user \<Rightarrow> string \<Rightarrow> string option \<Rightarrow> string option \<Rightarrow> db \<times> bool" where
  "revoke_session d usr session_id ip_address user_agent =
     (case find (\<lambda>s. s_id s = session_id \<and> s_user_id s = u_id usr \<and> s_is_active s)
             (sessions d) of
        None \<Rightarrow> (d, False)
      | Some sess \<Rightarrow>
          (let d1 = d\<lparr>sessions :=
                       update_first
                         (\<lambda>s. s_id s = session_id \<and> s_user_id s = u_id usr \<and> s_is_active s)
                         (\<lambda>s. s\<lparr>s_is_active := False\<rparr>) (sessions d)\<rparr>
           in (log_audit_action d1 ''session_revoked'' (Some ''session'') (Some (s_id sess))
                 (Some usr) None None ip_address user_agent,
               True)))"

definition cleanup_expired_sessions :: "int \<Rightarrow> db \<Rightarrow> db \<times> nat" where
  "cleanup_expired_sessions now d =
     (d\<lparr>sessions := map (\<lambda>s. if s_expires_at s < now then s\<lparr>s_is_active := False\<rparr> else s)
                         (sessions d)\<rparr>,
      length (filter (\<lambda>s. s_expires_at s < now) (sessions d)))"

section \<open>Sequences of service calls\<close>

text \<open>
  One constructor per state-changing method of \<open>UserService\<close> and \<open>AuthService\<close>, with
  its arguments. \<open>step\<close> gives the tables after the call made at time \<open>now\<close>; a call that
  raises commits nothing.
\<close>

datatype op =
    CreateUser string string user_create "user option"
  | UpdateUser string user_update "user option"
  | UpdateUserProfile string profile_update
  | ChangePassword string string password_change
  | DeleteUser string "user option"
  | LockUser string "user option"
  | UnlockUser string "user option"
  | AuthenticateUser login_request "string option" "string option"
  | CreateUserSession string string user bool "string option" "string option" "string option"
  | RefreshAccessToken token "string option" "string option"
  | LogoutUser user "token option" bool "string option" "string option"
  | RequestPasswordReset string "string option" "string option"
  | ResetPassword string token pystr "string option" "string option"
  | RevokeSession user string "string option" "string option"
  | CleanupExpiredSessions

definition committed :: "db \<Rightarrow> py_error + (db \<times> 'a) \<Rightarrow> db" where
  "committed d r = (case r of Inl e \<Rightarrow> d | Inr (d', x) \<Rightarrow> d')"

fun step :: "platform \<Rightarrow> settings \<Rightarrow> int \<Rightarrow> op \<Rightarrow> db \<Rightarrow> db" where
  "step px cfg now (CreateUser new_id salt uc by) d =
     committed d (create_user px cfg now new_id salt d uc by)"
| "step px cfg now (UpdateUser uid upd by) d = committed d (update_user now d uid upd by)"
| "step px cfg now (UpdateUserProfile uid upd) d = committed d (update_user_profile now d uid upd)"
| "step px cfg now (ChangePassword salt uid pc) d =
     committed d (change_password px cfg now salt d uid pc)"
| "step px cfg now (DeleteUser uid by) d = fst (delete_user now d uid by)"
| "step px cfg now (LockUser uid by) d = fst (lock_user now d uid by)"
| "step px cfg now (UnlockUser uid by) d = fst (unlock_user now d uid by)"
| "step px cfg now (AuthenticateUser req ip ua) d = fst (authenticate_user px cfg now d req ip ua)"
| "step px cfg now (CreateUserSession jti new_id usr remember dev ip ua) d =
     committed d (create_user_session cfg now jti new_id d usr remember dev ip ua)"
| "step px cfg now (RefreshAccessToken rtok ip ua) d =
     committed d (refresh_access_token px cfg now d rtok ip ua)"
| "step px cfg now (LogoutUser usr rtok all_devices ip ua) d =
     fst (logout_user d usr rtok all_devices ip ua)"
| "step px cfg now (RequestPasswordReset e ip ua) d =
     committed d (request_password_reset cfg now d e ip ua)"
| "step px cfg now (ResetPassword salt tok new_pw ip ua) d =
     committed d (reset_password px cfg now salt d tok new_pw ip ua)"
| "step px cfg now (RevokeSession usr sid ip ua) d = fst (revoke_session d usr sid ip ua)"
| "step px cfg now CleanupExpiredSessions d = fst (cleanup_expired_sessions now d)"

fun run :: "platform \<Rightarrow> settings \<Rightarrow> (int \<times> op) list \<Rightarrow> db \<Rightarrow> db" where
  "run px cfg [] d = d"
| "run px cfg ((now, c) # cs) d = run px cfg cs (step px cfg now c d)"

section \<open>State predicates\<close>

text \<open>The tables before the first call.\<close>

definition empty_db :: db where
  "empty_db = \<lparr> users = [], sessions = [], password_resets = [], audit_logs = [] \<rparr>"

text \<open>
  The invariant of the user table stated in the data model: a user that is not locked has
  no \<open>locked_until\<close>. And the one the login relies on: no counter of failed logins is
  negative.
\<close>

definition lock_consistent :: "user \<Rightarrow> bool" where
  "lock_consistent u \<longleftrightarrow> is_locked u \<or> locked_until u = None"

definition lock_invariant :: "db \<Rightarrow> bool" where
  "lock_invariant d \<longleftrightarrow> list_all lock_consistent (users d)"

definition counter_invariant :: "db \<Rightarrow> bool" where
  "counter_invariant d \<longleftrightarrow> list_all (\<lambda>u. 0 \<le> failed_login_attempts u) (users d)"

text \<open>
  What one call may do to the user table. A row keeps its place and its identifier; its
  counter is set to 0 or does not go down; its \<open>is_locked\<close> and \<open>locked_until\<close> are both
  kept, or changed to a consistent pair. New rows come at the end, unlocked, with no
  \<open>locked_until\<close> and the counter 0.
\<close>

definition fresh_row :: "user \<Rightarrow> bool" where
  "fresh_row u \<longleftrightarrow> failed_login_attempts u = 0 \<and> \<not> is_locked u \<and> locked_until u = None"

definition row_change :: "user \<Rightarrow> user \<Rightarrow> bool" where
  "row_change u u' \<longleftrightarrow>
     u_id u' = u_id u \<and>
     (failed_login_attempts u' = 0 \<or> failed_login_attempts u \<le> failed_login_attempts u') \<and>
     (lock_consistent u' \<or> (is_locked u' = is_locked u \<and> locked_until u' = locked_until u))"

definition users_evolve :: "user list \<Rightarrow> user list \<Rightarrow> bool" where
  "users_evolve old new \<longleftrightarrow>
     length old \<le> length new \<and>
     list_all2 row_change old (take (length old) new) \<and>
     list_all fresh_row (drop (length old) new)"

text \<open>
  A refresh token is revoked when the session table holds it and no session that holds it
  is active. What one call may do to the session table: a row keeps its place, its
  identifier, its user and its refresh token, and is active afterwards only if it was
  before; new rows come at the end, with refresh tokens that no earlier row holds (the
  column is unique).
\<close>

definition revoked :: "db \<Rightarrow> token \<Rightarrow> bool" where
  "revoked d tok \<longleftrightarrow>
     list_ex (\<lambda>s. refresh_token s = tok) (sessions d) \<and>
     list_all (\<lambda>s. refresh_token s = tok \<longrightarrow> \<not> s_is_active s) (sessions d)"

definition session_change :: "user_session \<Rightarrow> user_session \<Rightarrow> bool" where
  "session_change s s' \<longleftrightarrow>
     s_id s' = s_id s \<and> s_user_id s' = s_user_id s \<and> refresh_token s' = refresh_token s \<and>
     (s_is_active s' \<longrightarrow> s_is_active s)"

definition sessions_evolve :: "user_session list \<Rightarrow> user_session list \<Rightarrow> bool" where
  "sessions_evolve old new \<longleftrightarrow>
     length old \<le> length new \<and>
     list_all2 session_change old (take (length old) new) \<and>
     list_all (\<lambda>s. refresh_token s \<notin> set (map refresh_token old)) (drop (length old) new) \<and>
     distinct (map refresh_token (drop (length old) new))"

section \<open>Concrete inputs\<close>

text \<open>
  The defaults of \<open>Settings\<close> in config.py around a given secret key, and a platform on
  which the model can be evaluated: a server whose local time is UTC, a stand-in for
  bcrypt that keeps the password behind the salt, a UUID parser that takes every
  string, and the three character classes of Python on the code points below 256
  (Basic Latin and Latin-1; the example passwords stay in that range).
\<close>

definition default_settings :: "string \<Rightarrow> settings" where
  "default_settings key =
     \<lparr> SECRET_KEY = key, ACCESS_TOKEN_EXPIRE_MINUTES = 30, REFRESH_TOKEN_EXPIRE_DAYS = 7,
       PASSWORD_MIN_LENGTH = 8, PASSWORD_REQUIRE_UPPERCASE = True,
       PASSWORD_REQUIRE_LOWERCASE = True, PASSWORD_REQUIRE_NUMBERS = True,
       PASSWORD_REQUIRE_SPECIAL = True, MAX_LOGIN_ATTEMPTS = 5,
       LOCKOUT_DURATION_MINUTES = 30 \<rparr>"

definition utc_platform :: platform where
  "utc_platform =
     \<lparr> ctx_hash = (\<lambda>salt pw. salt @ map char_of pw),
       ctx_verify = (\<lambda>pw h. length pw \<le> length h \<and>
                             map of_char (drop (length h - length pw) h) = pw),
       uuid_parse = (\<lambda>v. case v of JStr s \<Rightarrow> Inr s | _ \<Rightarrow> Inl AttributeError),
       tz_offset = 0,
       py_isupper = (\<lambda>c. (65 \<le> c \<and> c \<le> 90) \<or> (192 \<le> c \<and> c \<le> 222 \<and> c \<noteq> 215)),
       py_islower = (\<lambda>c. (97 \<le> c \<and> c \<le> 122) \<or> c = 170 \<or> c = 181 \<or> c = 186 \<or>
                             (223 \<le> c \<and> c \<le> 255 \<and> c \<noteq> 247)),
       py_isdigit = (\<lambda>c. (48 \<le> c \<and> c \<le> 57) \<or> c = 178 \<or> c = 179 \<or> c = 185) \<rparr>"

text \<open>
  A directory with one active, unlocked user whose password is \<open>Str0ng!Pw\<close>, and the
  tables after that user has asked for a password reset at time 1000.
\<close>

definition example_user :: user where
  "example_user =
     \<lparr> u_id = ''u1'', email = ''a@x.com'', password_hash = ''salt'' @ ''Str0ng!Pw'',
       first_name = ''A'', last_name = ''X'', avatar_url = None, role = USER,
       is_active = True, is_verified = False, is_locked = False, updated_at = 0,
       last_login = None, password_changed_at = 0, failed_login_attempts = 0,
       locked_until = None \<rparr>"

definition example_db :: db where
  "example_db =
     \<lparr> users = [example_user], sessions = [], password_resets = [], audit_logs = [] \<rparr>"

definition reset_requested_db :: db where
  "reset_requested_db =
     committed example_db
       (request_password_reset (default_settings ''k'') 1000 example_db ''a@x.com'' None None)"

text \<open>
  Three sessions opened at time 1000, two of user \<open>u1\<close> and one of user \<open>u2\<close>, each with
  the refresh token \<open>create_refresh_token\<close> gives it.
\<close>

definition example_session :: "string \<Rightarrow> string \<Rightarrow> string \<Rightarrow> user_session" where
  "example_session sid uid jti =
     \<lparr> s_id = sid, s_user_id = uid,
       refresh_token = create_refresh_token (default_settings ''k'') 1000 jti uid None,
       device_info = None, s_ip_address = None, s_user_agent = None,
       s_expires_at = 1000 + 86400 * 7, last_used_at = 1000, s_is_active = True \<rparr>"

definition example_sessions_db :: db where
  "example_sessions_db =
     example_db\<lparr>sessions := [example_session ''s1'' ''u1'' ''j1'',
                              example_session ''s2'' ''u1'' ''j2'',
                              example_session ''s3'' ''u2'' ''j3'']\<rparr>"

text \<open>
  A login of the example user with a wrong and with the right password.
\<close>

definition wrong_login :: login_request where
  "wrong_login = \<lparr> lr_email = ''a@x.com'', lr_password = map of_char ''wrong'', remember_me = False \<rparr>"

definition right_login :: login_request where
  "right_login = \<lparr> lr_email = ''a@x.com'', lr_password = map of_char ''Str0ng!Pw'', remember_me = False \<rparr>"

text \<open>
  The tables after four failed logins of the example user.
\<close>

definition four_failures_db :: db where
  "four_failures_db =
     run utc_platform (default_settings ''k'')
       [(1000, AuthenticateUser wrong_login None None),
        (1001, AuthenticateUser wrong_login None None),
        (1002, AuthenticateUser wrong_login None None),
        (1003, AuthenticateUser wrong_login None None)]
       example_db"

text \<open>The same platform on a server whose local time is five hours behind UTC.\<close>

definition west_platform :: platform where
  "west_platform = utc_platform\<lparr>tz_offset := - 18000\<rparr>"

text \<open>
  The calls that create the example user at time 0 and then fail one login at time 1000.
\<close>

definition example_signup :: user_create where
  "example_signup =
     \<lparr> uc_email = ''a@x.com'', uc_password = map of_char ''Str0ng!Pw'', uc_first_name = ''A'',
       uc_last_name = ''X'', uc_role = USER, uc_is_active = True \<rparr>"

definition example_calls :: "(int \<times> op) list" where
  "example_calls =
     [(0, CreateUser ''u1'' ''salt'' example_signup None),
      (1000, AuthenticateUser wrong_login None None)]"

text \<open>
  The tables after the example user has been created, and the tables after the fifth
  failed login, at time 1004.
\<close>

definition created_db :: db where
  "created_db =
     committed empty_db
       (create_user utc_platform (default_settings ''k'') 0 ''u1'' ''salt'' empty_db example_signup
          None)"

definition locked_db :: db where
  "locked_db =
     step utc_platform (default_settings ''k'') 1004 (AuthenticateUser wrong_login None None)
       four_failures_db"

text \<open>
  The calls that create the example user, open a session for that user at time 1000 and
  ask for a password reset; the tables after them; the refresh token of that session; the
  tables after the user has logged out with that token; two later calls, one opening
  another session and one presenting the token again; and a change of password.
\<close>

definition session_calls :: "(int \<times> op) list" where
  "session_calls =
     [(0, CreateUser ''u1'' ''salt'' example_signup None),
      (1000, CreateUserSession ''j1'' ''s1'' example_user False None None None),
      (1000, RequestPasswordReset ''a@x.com'' None None)]"

definition session_db :: db where
  "session_db = run utc_platform (default_settings ''k'') session_calls empty_db"

definition session_token :: token where
  "session_token = create_refresh_token (default_settings ''k'') 1000 ''j1'' ''u1'' None"

definition logged_out_db :: db where
  "logged_out_db = fst (logout_user session_db example_user (Some session_token) False None None)"

definition later_calls :: "(int \<times> op) list" where
  "later_calls =
     [(2000, CreateUserSession ''j2'' ''s2'' example_user False None None None),
      (2001, RefreshAccessToken session_token None None)]"

definition example_password_change :: password_change where
  "example_password_change =
     \<lparr> current_password = map of_char ''Str0ng!Pw'', new_password = map of_char ''N3w!Passw0rd'' \<rparr>"

section \<open>Tokens: verification of created tokens\<close>

lemma map_of_dict_update: "map_of (dict_update d e) = map_of d ++ map_of (rev e)"
proof (induction e arbitrary: d)
  case Nil
  then show ?case by (simp add: dict_update_def)
next
  case (Cons a e)
  obtain k v where a: "a = (k, v)" by (cases a)
  have "dict_update d (a # e) = dict_update (AList.update k v d) e"
    by (simp add: dict_update_def a)
  then show ?case
    by (intro ext) (simp add: Cons.IH update_conv' a map_add_def split: option.splits)
qed

lemma map_of_rev_None: "map_of (rev e) k = None \<longleftrightarrow> map_of e k = None"
  by (simp add: map_of_eq_None_iff)

lemma map_of_rev_distinct: "distinct (map fst e) \<Longrightarrow> map_of (rev e) = map_of e"
  by (subst map_of_inject_set) (simp_all add: distinct_rev rev_map [symmetric])

lemma dict_update_absent:
  "map_of e k = None \<Longrightarrow> map_of (dict_update d e) k = map_of d k"
  using map_of_rev_None [of e k] by (simp add: map_of_dict_update map_add_def)

lemma dict_update_present:
  "distinct (map fst e) \<Longrightarrow> map_of e k = Some v \<Longrightarrow> map_of (dict_update d e) k = Some v"
  by (simp add: map_of_dict_update map_add_def map_of_rev_distinct)

lemma jwt_decode_Inr: "jwt_decode tok key now = Inr p \<Longrightarrow> tok = Signed key p"
  by (auto simp: jwt_decode_def split: token.splits option.splits if_splits)

lemma check_time_claim_JInt:
  "map_of payload name = Some (JInt n) \<Longrightarrow>
   check_time_claim payload name bad = (if bad n then Some PyJWTError else None)"
  by (simp add: check_time_claim_def)

lemma check_time_claim_absent:
  "map_of payload name = None \<Longrightarrow> check_time_claim payload name bad = None"
  by (simp add: check_time_claim_def)

lemma verify_token_wrong_type:
  assumes "map_of p ''type'' \<noteq> Some (JStr k)"
  shows "verify_token cfg px now (Signed key p) k \<noteq> Inr (Some q)"
  using assms
  by (auto simp: verify_token_def split: sum.splits dest!: jwt_decode_Inr)

lemma verify_token_wrong_type_None:
  assumes "map_of p ''type'' \<noteq> Some (JStr k)"
    and "map_of p ''iat'' = Some (JInt a)" and "map_of p ''exp'' = Some (JInt b)"
    and "map_of p ''nbf'' = None"
  shows "verify_token cfg px now (Signed key p) k = Inr None"
  using assms
  by (auto simp: verify_token_def jwt_decode_def check_time_claim_JInt check_time_claim_absent
      split: sum.splits option.splits)

lemma verify_token_accepts:
  assumes "map_of p ''type'' = Some (JStr k)"
    and "map_of p ''iat'' = Some (JInt a)" and "a \<le> t"
    and "map_of p ''exp'' = Some (JInt b)" and "t < b"
    and "map_of p ''nbf'' = None" and "map_of p ''aud'' = None"
    and "t \<le> b + tz_offset px"
    and "min_timestamp \<le> b + tz_offset px" and "b + tz_offset px \<le> max_timestamp"
  shows "verify_token cfg px t (Signed (SECRET_KEY cfg) p) k = Inr (Some p)"
  using assms
  by (simp add: verify_token_def jwt_decode_def check_time_claim_JInt check_time_claim_absent)

text \<open>
  Claim C3, as the code has it. A token made by \<open>create_refresh_token\<close>,
  \<open>generate_password_reset_token\<close> or \<open>generate_email_verification_token\<close>, or by
  \<open>create_access_token\<close> without additional claims, is refused by \<open>verify_token\<close> under
  every other kind, at every time and on every platform: the call returns \<open>None\<close>, the
  one failure value of the code. With additional claims that do not set \<open>type\<close>,
  an access token never yields claims under another kind; if they also leave \<open>exp\<close>,
  \<open>iat\<close> and \<open>nbf\<close> alone the call returns \<open>None\<close>.
\<close>

theorem kind_mismatch_fails:
  "(\<forall>k. k \<noteq> ''refresh'' \<longrightarrow>
      verify_token cfg px t (create_refresh_token cfg now jti subject d) k = Inr None) \<and>
   (\<forall>k. k \<noteq> ''password_reset'' \<longrightarrow>
      verify_token cfg px t (generate_password_reset_token cfg now subject) k = Inr None) \<and>
   (\<forall>k. k \<noteq> ''email_verification'' \<longrightarrow>
      verify_token cfg px t (generate_email_verification_token cfg now subject) k = Inr None) \<and>
   (\<forall>k. k \<noteq> ''access'' \<longrightarrow>
      verify_token cfg px t (create_access_token cfg now subject d None) k = Inr None) \<and>
   (\<forall>k extra. k \<noteq> ''access'' \<and> map_of extra ''type'' = None \<longrightarrow>
      (\<forall>q. verify_token cfg px t (create_access_token cfg now subject d (Some extra)) k
             \<noteq> Inr (Some q))) \<and>
   (\<forall>k extra. k \<noteq> ''access'' \<and> map_of extra ''type'' = None \<and> map_of extra ''exp'' = None \<and>
        map_of extra ''iat'' = None \<and> map_of extra ''nbf'' = None \<longrightarrow>
      verify_token cfg px t (create_access_token cfg now subject d (Some extra)) k = Inr None)"
proof (intro conjI allI impI)
  fix k :: string
  assume "k \<noteq> ''refresh''"
  then show "verify_token cfg px t (create_refresh_token cfg now jti subject d) k = Inr None"
    unfolding create_refresh_token_def jwt_encode_def Let_def
    by (intro verify_token_wrong_type_None) auto
next
  fix k :: string
  assume "k \<noteq> ''password_reset''"
  then show "verify_token cfg px t (generate_password_reset_token cfg now subject) k = Inr None"
    unfolding generate_password_reset_token_def jwt_encode_def Let_def
    by (intro verify_token_wrong_type_None) auto
next
  fix k :: string
  assume "k \<noteq> ''email_verification''"
  then show "verify_token cfg px t (generate_email_verification_token cfg now subject) k = Inr None"
    unfolding generate_email_verification_token_def jwt_encode_def Let_def
    by (intro verify_token_wrong_type_None) auto
next
  fix k :: string
  assume "k \<noteq> ''access''"
  then show "verify_token cfg px t (create_access_token cfg now subject d None) k = Inr None"
    unfolding create_access_token_def jwt_encode_def Let_def
    by (intro verify_token_wrong_type_None) auto
next
  fix k :: string and extra :: claims and q
  assume "k \<noteq> ''access'' \<and> map_of extra ''type'' = None"
  then show "verify_token cfg px t (create_access_token cfg now subject d (Some extra)) k
             \<noteq> Inr (Some q)"
    unfolding create_access_token_def jwt_encode_def Let_def
    by (intro verify_token_wrong_type) (auto simp: dict_update_absent)
next
  fix k :: string and extra :: claims
  assume "k \<noteq> ''access'' \<and> map_of extra ''type'' = None \<and> map_of extra ''exp'' = None \<and>
        map_of extra ''iat'' = None \<and> map_of extra ''nbf'' = None"
  then show "verify_token cfg px t (create_access_token cfg now subject d (Some extra)) k = Inr None"
    unfolding create_access_token_def jwt_encode_def Let_def
    by (intro verify_token_wrong_type_None) (auto simp: dict_update_absent)
qed

lemmas token_eval = verify_token_def create_access_token_def create_refresh_token_def
  generate_password_reset_token_def generate_email_verification_token_def jwt_encode_def
  jwt_decode_def check_time_claim_def dict_update_def default_settings_def utc_platform_def
  expire_at_def min_timestamp_def max_timestamp_def

text \<open>The same at concrete tokens, one for each creator.\<close>

theorem kind_mismatch_fails_witness:
  "''access'' \<noteq> ''refresh'' \<and>
   verify_token (default_settings ''k'') utc_platform 1500
     (create_refresh_token (default_settings ''k'') 1000 ''j1'' ''u1'' None) ''access'' = Inr None \<and>
   ''access'' \<noteq> ''password_reset'' \<and>
   verify_token (default_settings ''k'') utc_platform 1500
     (generate_password_reset_token (default_settings ''k'') 1000 ''u1'') ''access'' = Inr None \<and>
   ''access'' \<noteq> ''email_verification'' \<and>
   verify_token (default_settings ''k'') utc_platform 1500
     (generate_email_verification_token (default_settings ''k'') 1000 ''u1'') ''access'' = Inr None \<and>
   ''refresh'' \<noteq> ''access'' \<and>
   verify_token (default_settings ''k'') utc_platform 1500
     (create_access_token (default_settings ''k'') 1000 ''u1'' None None) ''refresh'' = Inr None \<and>
   map_of [(''email'', JStr ''a@x.com'')] ''type'' = None \<and>
   map_of [(''email'', JStr ''a@x.com'')] ''exp'' = None \<and>
   map_of [(''email'', JStr ''a@x.com'')] ''iat'' = None \<and>
   map_of [(''email'', JStr ''a@x.com'')] ''nbf'' = None \<and>
   verify_token (default_settings ''k'') utc_platform 1500
     (create_access_token (default_settings ''k'') 1000 ''u1'' None
        (Some [(''email'', JStr ''a@x.com'')])) ''refresh'' = Inr None"
  using kind_mismatch_fails [of "default_settings ''k''" utc_platform 1500 1000 "''j1''" "''u1''" None]
  by simp

text \<open>
  Without the restriction the statement of C3 fails: \<open>to_encode.update(additional_claims)\<close>
  lets the additional claims replace \<open>type\<close>, and the access token then verifies as a
  refresh token.
\<close>

theorem kind_mismatch_counterexample:
  "verify_token (default_settings ''k'') utc_platform 1500
     (create_access_token (default_settings ''k'') 1000 ''u1'' None
        (Some [(''type'', JStr ''refresh'')])) ''refresh''
   = Inr (Some [(''exp'', JInt 2800), (''sub'', JStr ''u1''), (''type'', JStr ''refresh''),
                (''iat'', JInt 1000)])"
  by (simp add: token_eval)

text \<open>
  Claim C5 at a token signed with the server's key whose \<open>exp\<close> lies beyond the year 9999:
  PyJWT accepts it, \<open>datetime.fromtimestamp\<close> raises \<open>ValueError\<close>, and the
  \<open>except jwt.PyJWTError\<close> of \<open>verify_token\<close> does not catch it.
\<close>

theorem verify_token_raises:
  "verify_token (default_settings ''k'') utc_platform 1500
     (create_access_token (default_settings ''k'') 1000 ''u1'' None
        (Some [(''exp'', JInt 1000000000000000000)])) ''access'' = Inl ValueError"
  by (simp add: token_eval)

text \<open>
  When a created token verifies. For additional claims that set none of \<open>exp\<close>, \<open>sub\<close>,
  \<open>type\<close>, \<open>iat\<close>, \<open>nbf\<close> and \<open>aud\<close>, a token verified under its own kind at a time \<open>t\<close>
  from its creation on and strictly before its expiry yields its payload, with the
  subject under \<open>sub\<close> and every additional claim unchanged, if the expiry read as
  server-local time is a date the platform represents and not before \<open>t\<close>: the last
  check of \<open>verify_token\<close> compares the UTC clock with the local reading of \<open>exp\<close>.
\<close>

lemma created_token_verifies:
  "(distinct (map fst extra) \<and>
      map_of extra ''exp'' = None \<and> map_of extra ''sub'' = None \<and> map_of extra ''type'' = None \<and>
      map_of extra ''iat'' = None \<and> map_of extra ''nbf'' = None \<and> map_of extra ''aud'' = None \<and>
      now \<le> t \<and> t < expire_at now d (60 * ACCESS_TOKEN_EXPIRE_MINUTES cfg) \<and>
      t \<le> expire_at now d (60 * ACCESS_TOKEN_EXPIRE_MINUTES cfg) + tz_offset px \<and>
      min_timestamp \<le> expire_at now d (60 * ACCESS_TOKEN_EXPIRE_MINUTES cfg) + tz_offset px \<and>
      expire_at now d (60 * ACCESS_TOKEN_EXPIRE_MINUTES cfg) + tz_offset px \<le> max_timestamp \<longrightarrow>
      (\<exists>p. verify_token cfg px t (create_access_token cfg now subject d (Some extra)) ''access''
             = Inr (Some p) \<and>
           map_of p ''sub'' = Some (JStr subject) \<and>
           (\<forall>k v. map_of extra k = Some v \<longrightarrow> map_of p k = Some v))) \<and>
   (now \<le> t \<and> t < expire_at now d (60 * ACCESS_TOKEN_EXPIRE_MINUTES cfg) \<and>
      t \<le> expire_at now d (60 * ACCESS_TOKEN_EXPIRE_MINUTES cfg) + tz_offset px \<and>
      min_timestamp \<le> expire_at now d (60 * ACCESS_TOKEN_EXPIRE_MINUTES cfg) + tz_offset px \<and>
      expire_at now d (60 * ACCESS_TOKEN_EXPIRE_MINUTES cfg) + tz_offset px \<le> max_timestamp \<longrightarrow>
      (\<exists>p. verify_token cfg px t (create_access_token cfg now subject d None) ''access''
             = Inr (Some p) \<and> map_of p ''sub'' = Some (JStr subject))) \<and>
   (now \<le> t \<and> t < expire_at now d (86400 * REFRESH_TOKEN_EXPIRE_DAYS cfg) \<and>
      t \<le> expire_at now d (86400 * REFRESH_TOKEN_EXPIRE_DAYS cfg) + tz_offset px \<and>
      min_timestamp \<le> expire_at now d (86400 * REFRESH_TOKEN_EXPIRE_DAYS cfg) + tz_offset px \<and>
      expire_at now d (86400 * REFRESH_TOKEN_EXPIRE_DAYS cfg) + tz_offset px \<le> max_timestamp \<longrightarrow>
      (\<exists>p. verify_token cfg px t (create_refresh_token cfg now jti subject d) ''refresh''
             = Inr (Some p) \<and> map_of p ''sub'' = Some (JStr subject))) \<and>
   (now \<le> t \<and> t < now + 3600 \<and> t \<le> now + 3600 + tz_offset px \<and>
      min_timestamp \<le> now + 3600 + tz_offset px \<and> now + 3600 + tz_offset px \<le> max_timestamp \<longrightarrow>
      (\<exists>p. verify_token cfg px t (generate_password_reset_token cfg now subject) ''password_reset''
             = Inr (Some p) \<and> map_of p ''sub'' = Some (JStr subject))) \<and>
   (now \<le> t \<and> t < now + 604800 \<and> t \<le> now + 604800 + tz_offset px \<and>
      min_timestamp \<le> now + 604800 + tz_offset px \<and> now + 604800 + tz_offset px \<le> max_timestamp \<longrightarrow>
      (\<exists>p. verify_token cfg px t (generate_email_verification_token cfg now subject)
               ''email_verification''
             = Inr (Some p) \<and> map_of p ''sub'' = Some (JStr subject)))"
proof (intro conjI impI)
  assume h: "distinct (map fst extra) \<and>
      map_of extra ''exp'' = None \<and> map_of extra ''sub'' = None \<and> map_of extra ''type'' = None \<and>
      map_of extra ''iat'' = None \<and> map_of extra ''nbf'' = None \<and> map_of extra ''aud'' = None \<and>
      now \<le> t \<and> t < expire_at now d (60 * ACCESS_TOKEN_EXPIRE_MINUTES cfg) \<and>
      t \<le> expire_at now d (60 * ACCESS_TOKEN_EXPIRE_MINUTES cfg) + tz_offset px \<and>
      min_timestamp \<le> expire_at now d (60 * ACCESS_TOKEN_EXPIRE_MINUTES cfg) + tz_offset px \<and>
      expire_at now d (60 * ACCESS_TOKEN_EXPIRE_MINUTES cfg) + tz_offset px \<le> max_timestamp"
  let ?e = "expire_at now d (60 * ACCESS_TOKEN_EXPIRE_MINUTES cfg)"
  let ?p = "dict_update [(''exp'', JInt ?e), (''sub'', JStr subject), (''type'', JStr ''access''),
             (''iat'', JInt now)] extra"
  have "verify_token cfg px t (Signed (SECRET_KEY cfg) ?p) ''access'' = Inr (Some ?p)"
    using h by (intro verify_token_accepts [where a = now and b = ?e])
      (simp_all add: dict_update_absent)
  moreover have "map_of ?p ''sub'' = Some (JStr subject)"
    using h by (simp add: dict_update_absent)
  moreover have "\<forall>k v. map_of extra k = Some v \<longrightarrow> map_of ?p k = Some v"
    using h by (simp add: dict_update_present)
  ultimately show "\<exists>p. verify_token cfg px t (create_access_token cfg now subject d (Some extra)) ''access''
             = Inr (Some p) \<and> map_of p ''sub'' = Some (JStr subject) \<and>
           (\<forall>k v. map_of extra k = Some v \<longrightarrow> map_of p k = Some v)"
    unfolding create_access_token_def jwt_encode_def Let_def by auto
next
  assume h: "now \<le> t \<and> t < expire_at now d (60 * ACCESS_TOKEN_EXPIRE_MINUTES cfg) \<and>
      t \<le> expire_at now d (60 * ACCESS_TOKEN_EXPIRE_MINUTES cfg) + tz_offset px \<and>
      min_timestamp \<le> expire_at now d (60 * ACCESS_TOKEN_EXPIRE_MINUTES cfg) + tz_offset px \<and>
      expire_at now d (60 * ACCESS_TOKEN_EXPIRE_MINUTES cfg) + tz_offset px \<le> max_timestamp"
  let ?e = "expire_at now d (60 * ACCESS_TOKEN_EXPIRE_MINUTES cfg)"
  let ?p = "[(''exp'', JInt ?e), (''sub'', JStr subject), (''type'', JStr ''access''),
             (''iat'', JInt now)]"
  have "verify_token cfg px t (Signed (SECRET_KEY cfg) ?p) ''access'' = Inr (Some ?p)"
    using h by (intro verify_token_accepts [where a = now and b = ?e]) auto
  then show "\<exists>p. verify_token cfg px t (create_access_token cfg now subject d None) ''access''
             = Inr (Some p) \<and> map_of p ''sub'' = Some (JStr subject)"
    unfolding create_access_token_def jwt_encode_def Let_def by auto
next
  assume h: "now \<le> t \<and> t < expire_at now d (86400 * REFRESH_TOKEN_EXPIRE_DAYS cfg) \<and>
      t \<le> expire_at now d (86400 * REFRESH_TOKEN_EXPIRE_DAYS cfg) + tz_offset px \<and>
      min_timestamp \<le> expire_at now d (86400 * REFRESH_TOKEN_EXPIRE_DAYS cfg) + tz_offset px \<and>
      expire_at now d (86400 * REFRESH_TOKEN_EXPIRE_DAYS cfg) + tz_offset px \<le> max_timestamp"
  let ?e = "expire_at now d (86400 * REFRESH_TOKEN_EXPIRE_DAYS cfg)"
  let ?p = "[(''exp'', JInt ?e), (''sub'', JStr subject), (''type'', JStr ''refresh''),
             (''iat'', JInt now), (''jti'', JStr jti)]"
  have "verify_token cfg px t (Signed (SECRET_KEY cfg) ?p) ''refresh'' = Inr (Some ?p)"
    using h by (intro verify_token_accepts [where a = now and b = ?e]) auto
  then show "\<exists>p. verify_token cfg px t (create_refresh_token cfg now jti subject d) ''refresh''
             = Inr (Some p) \<and> map_of p ''sub'' = Some (JStr subject)"
    unfolding create_refresh_token_def jwt_encode_def Let_def by auto
next
  assume h: "now \<le> t \<and> t < now + 3600 \<and> t \<le> now + 3600 + tz_offset px \<and>
      min_timestamp \<le> now + 3600 + tz_offset px \<and> now + 3600 + tz_offset px \<le> max_timestamp"
  let ?p = "[(''exp'', JInt (now + 3600)), (''sub'', JStr subject),
             (''type'', JStr ''password_reset''), (''iat'', JInt now)]"
  have "verify_token cfg px t (Signed (SECRET_KEY cfg) ?p) ''password_reset'' = Inr (Some ?p)"
    using h by (intro verify_token_accepts [where a = now and b = "now + 3600"]) auto
  then show "\<exists>p. verify_token cfg px t (generate_password_reset_token cfg now subject) ''password_reset''
             = Inr (Some p) \<and> map_of p ''sub'' = Some (JStr subject)"
    unfolding generate_password_reset_token_def jwt_encode_def Let_def by auto
next
  assume h: "now \<le> t \<and> t < now + 604800 \<and> t \<le> now + 604800 + tz_offset px \<and>
      min_timestamp \<le> now + 604800 + tz_offset px \<and> now + 604800 + tz_offset px \<le> max_timestamp"
  let ?p = "[(''exp'', JInt (now + 604800)), (''sub'', JStr subject),
             (''type'', JStr ''email_verification''), (''iat'', JInt now)]"
  have "verify_token cfg px t (Signed (SECRET_KEY cfg) ?p) ''email_verification'' = Inr (Some ?p)"
    using h by (intro verify_token_accepts [where a = now and b = "now + 604800"]) auto
  then show "\<exists>p. verify_token cfg px t (generate_email_verification_token cfg now subject) ''email_verification''
             = Inr (Some p) \<and> map_of p ''sub'' = Some (JStr subject)"
    unfolding generate_email_verification_token_def jwt_encode_def Let_def by auto
qed

text \<open>
  An additional claim \<open>sub\<close> replaces the subject: \<open>to_encode.update(additional_claims)\<close>
  runs after the subject is set, and the verified payload carries \<open>u2\<close> where the token
  was created for \<open>u1\<close>.
\<close>

lemma additional_claims_replace_subject:
  "verify_token (default_settings ''k'') utc_platform 1500
     (create_access_token (default_settings ''k'') 1000 ''u1'' None
        (Some [(''sub'', JStr ''u2'')])) ''access''
   = Inr (Some [(''exp'', JInt 2800), (''sub'', JStr ''u2''), (''type'', JStr ''access''),
                (''iat'', JInt 1000)])"
  by (simp add: token_eval)

text \<open>
  On a server whose local time is behind UTC by more than the life of an access token,
  no access token ever verifies.
\<close>

lemma access_token_refused_west_of_utc:
  assumes "tz_offset px < - (60 * ACCESS_TOKEN_EXPIRE_MINUTES cfg)" and "now \<le> t"
  shows "verify_token cfg px t (create_access_token cfg now subject None None) ''access''
         \<noteq> Inr (Some p)"
proof
  let ?q = "[(''exp'', JInt (now + 60 * ACCESS_TOKEN_EXPIRE_MINUTES cfg)),
             (''sub'', JStr subject), (''type'', JStr ''access''), (''iat'', JInt now)]"
  assume v: "verify_token cfg px t (create_access_token cfg now subject None None) ''access''
         = Inr (Some p)"
  then obtain q where q: "jwt_decode (Signed (SECRET_KEY cfg) ?q) (SECRET_KEY cfg) t = Inr q"
    by (auto simp: verify_token_def create_access_token_def jwt_encode_def expire_at_def
        Let_def split: sum.splits if_splits)
  have "q = ?q" using jwt_decode_Inr [OF q] by simp
  then show False
    using v q assms
    by (auto simp: verify_token_def create_access_token_def jwt_encode_def expire_at_def
        Let_def split: sum.splits if_splits)
qed

text \<open>
  Claim C4 on a server whose local time is five hours behind UTC, with the default
  settings: the access token made at time 1000 for subject \<open>u1\<close>, with no additional
  claims or with the one claim \<open>email\<close>, is refused by \<open>verify_token\<close> under its own kind
  at time 1000, half an hour before it expires. \<open>jwt.decode\<close> accepts it; the check after
  it compares \<open>datetime.utcnow()\<close> with \<open>datetime.fromtimestamp(exp)\<close>, the expiry read in
  local time, so a token counts as expired for the last five hours of its life, which
  for an access token is all of it. The same access token is accepted, with its subject,
  on a server in UTC. The refresh token made at time 1000 expires at 605800; on the western
  server it is accepted at 587800 and refused one second later.
\<close>

theorem create_verify_roundtrip_west_of_utc:
  "verify_token (default_settings ''k'') west_platform 1000
     (create_access_token (default_settings ''k'') 1000 ''u1'' None None) ''access'' = Inr None \<and>
   verify_token (default_settings ''k'') west_platform 1000
     (create_access_token (default_settings ''k'') 1000 ''u1'' None
        (Some [(''email'', JStr ''a@x.com'')])) ''access'' = Inr None \<and>
   verify_token (default_settings ''k'') utc_platform 1000
     (create_access_token (default_settings ''k'') 1000 ''u1'' None None) ''access''
     = Inr (Some [(''exp'', JInt 2800), (''sub'', JStr ''u1''), (''type'', JStr ''access''),
                  (''iat'', JInt 1000)]) \<and>
   verify_token (default_settings ''k'') west_platform 587800
     (create_refresh_token (default_settings ''k'') 1000 ''j1'' ''u1'' None) ''refresh''
     = Inr (Some [(''exp'', JInt 605800), (''sub'', JStr ''u1''), (''type'', JStr ''refresh''),
                  (''iat'', JInt 1000), (''jti'', JStr ''j1'')]) \<and>
   verify_token (default_settings ''k'') west_platform 587801
     (create_refresh_token (default_settings ''k'') 1000 ''j1'' ''u1'' None) ''refresh''
     = Inr None"
  by (simp add: token_eval west_platform_def)

section \<open>Password policy\<close>

lemma reset_password_rejects_weak:
  assumes "\<not> is_valid (validate_password_strength px cfg pw)"
  shows "committed d (reset_password px cfg now salt d tok pw ip ua) = d \<and>
         (\<forall>d' m. reset_password px cfg now salt d tok pw ip ua \<noteq> Inr (d', True, m))"
  using assms
  by (auto simp: reset_password_def committed_def Let_def
      split: sum.splits option.splits jval.splits if_splits)

text \<open>
  Claim C9. The result of \<open>validate_password_strength\<close> is valid exactly when its list
  of violations is empty; the list holds each violation at most once, and holds it
  exactly when its rule is switched on and the password fails it, where the length is
  counted in code points and the upper-case, lower-case and digit classes are those of
  the platform's \<open>str.isupper\<close>, \<open>str.islower\<close> and \<open>str.isdigit\<close>; the score is 100 minus
  20 for each violation, not below 0. With a password that is not valid,
  \<open>reset_password\<close> never reports success and commits no change to the tables, whatever
  the token.
\<close>

theorem password_policy:
  "(is_valid (validate_password_strength px cfg pw) \<longleftrightarrow>
      errors (validate_password_strength px cfg pw) = []) \<and>
   distinct (errors (validate_password_strength px cfg pw)) \<and>
   (\<forall>n. TooShort n \<in> set (errors (validate_password_strength px cfg pw)) \<longleftrightarrow>
        n = PASSWORD_MIN_LENGTH cfg \<and> int (length pw) < PASSWORD_MIN_LENGTH cfg) \<and>
   (NoUppercase \<in> set (errors (validate_password_strength px cfg pw)) \<longleftrightarrow>
        PASSWORD_REQUIRE_UPPERCASE cfg \<and> \<not> (\<exists>c \<in> set pw. py_isupper px c)) \<and>
   (NoLowercase \<in> set (errors (validate_password_strength px cfg pw)) \<longleftrightarrow>
        PASSWORD_REQUIRE_LOWERCASE cfg \<and> \<not> (\<exists>c \<in> set pw. py_islower px c)) \<and>
   (NoNumber \<in> set (errors (validate_password_strength px cfg pw)) \<longleftrightarrow>
        PASSWORD_REQUIRE_NUMBERS cfg \<and> \<not> (\<exists>c \<in> set pw. py_isdigit px c)) \<and>
   (NoSpecial \<in> set (errors (validate_password_strength px cfg pw)) \<longleftrightarrow>
        PASSWORD_REQUIRE_SPECIAL cfg \<and> \<not> (\<exists>c \<in> set pw. isspecial c)) \<and>
   strength_score (validate_password_strength px cfg pw) =
     max 0 (100 - 20 * int (length (errors (validate_password_strength px cfg pw)))) \<and>
   (\<not> is_valid (validate_password_strength px cfg pw) \<longrightarrow>
      committed d (reset_password px cfg now salt d tok pw ip ua) = d \<and>
      (\<forall>d' m. reset_password px cfg now salt d tok pw ip ua \<noteq> Inr (d', True, m)))"
proof -
  have 1: "is_valid (validate_password_strength px cfg pw) \<longleftrightarrow>
      errors (validate_password_strength px cfg pw) = []"
    by (simp add: validate_password_strength_def Let_def)
  have 2: "distinct (errors (validate_password_strength px cfg pw))"
    by (simp add: validate_password_strength_def Let_def)
  have 3: "\<forall>n. TooShort n \<in> set (errors (validate_password_strength px cfg pw)) \<longleftrightarrow>
        n = PASSWORD_MIN_LENGTH cfg \<and> int (length pw) < PASSWORD_MIN_LENGTH cfg"
    by (auto simp: validate_password_strength_def Let_def)
  have 4: "NoUppercase \<in> set (errors (validate_password_strength px cfg pw)) \<longleftrightarrow>
        PASSWORD_REQUIRE_UPPERCASE cfg \<and> \<not> (\<exists>c \<in> set pw. py_isupper px c)"
    by (auto simp: validate_password_strength_def Let_def list_ex_iff)
  have 5: "NoLowercase \<in> set (errors (validate_password_strength px cfg pw)) \<longleftrightarrow>
        PASSWORD_REQUIRE_LOWERCASE cfg \<and> \<not> (\<exists>c \<in> set pw. py_islower px c)"
    by (auto simp: validate_password_strength_def Let_def list_ex_iff)
  have 6: "NoNumber \<in> set (errors (validate_password_strength px cfg pw)) \<longleftrightarrow>
        PASSWORD_REQUIRE_NUMBERS cfg \<and> \<not> (\<exists>c \<in> set pw. py_isdigit px c)"
    by (auto simp: validate_password_strength_def Let_def list_ex_iff)
  have 7: "NoSpecial \<in> set (errors (validate_password_strength px cfg pw)) \<longleftrightarrow>
        PASSWORD_REQUIRE_SPECIAL cfg \<and> \<not> (\<exists>c \<in> set pw. isspecial c)"
    by (auto simp: validate_password_strength_def Let_def list_ex_iff)
  have 8: "strength_score (validate_password_strength px cfg pw) =
     max 0 (100 - 20 * int (length (errors (validate_password_strength px cfg pw))))"
    by (simp add: validate_password_strength_def Let_def)
  show ?thesis
    using 1 2 3 4 5 6 7 8 reset_password_rejects_weak [of px cfg pw d now salt tok ip ua]
    by blast
qed

lemmas service_eval = request_password_reset_def reset_password_def get_user_by_email_def
  get_user_by_id_def log_audit_action_def committed_def str_lower_def lower_char_def ascii_upper_def
  verify_password_reset_token_def reset_is_valid_def reset_is_expired_def
  invalidate_user_sessions_def example_db_def example_user_def

text \<open>
  The password \<open>abc\<close> under the default policy, offered with a reset token that is valid
  and outstanding: four violations, score 20, and the reset is refused with the tables
  unchanged. The password of code points 196 98 99 100 101 102 49 33 (an A with
  diaeresis as its only upper-case letter, then \<open>bcdef1!\<close>) and the password
  \<open>Str0ng!Pw\<close> are accepted with score 100, \<open>str0ng!pw\<close> misses the upper-case rule
  alone, and the reset with the first of them succeeds and stores its hash.
\<close>

theorem password_policy_witness:
  "\<not> is_valid (validate_password_strength utc_platform (default_settings ''k'') [97, 98, 99]) \<and>
   errors (validate_password_strength utc_platform (default_settings ''k'') [97, 98, 99])
     = [TooShort 8, NoUppercase, NoNumber, NoSpecial] \<and>
   strength_score (validate_password_strength utc_platform (default_settings ''k'') [97, 98, 99])
     = 20 \<and>
   reset_password utc_platform (default_settings ''k'') 1500 ''s2'' reset_requested_db
     (generate_password_reset_token (default_settings ''k'') 1000 ''a@x.com'') [97, 98, 99]
     None None
   = Inr (reset_requested_db, False,
          Some (PasswordValidationFailed [TooShort 8, NoUppercase, NoNumber, NoSpecial])) \<and>
   committed reset_requested_db
     (reset_password utc_platform (default_settings ''k'') 1500 ''s2'' reset_requested_db
        (generate_password_reset_token (default_settings ''k'') 1000 ''a@x.com'') [97, 98, 99]
        None None)
   = reset_requested_db \<and>
   validate_password_strength utc_platform (default_settings ''k'')
     [196, 98, 99, 100, 101, 102, 49, 33]
   = \<lparr> is_valid = True, errors = [], strength_score = 100 \<rparr> \<and>
   validate_password_strength utc_platform (default_settings ''k'') (map of_char ''Str0ng!Pw'')
   = \<lparr> is_valid = True, errors = [], strength_score = 100 \<rparr> \<and>
   validate_password_strength utc_platform (default_settings ''k'') (map of_char ''str0ng!pw'')
   = \<lparr> is_valid = False, errors = [NoUppercase], strength_score = 80 \<rparr> \<and>
   map_sum id snd
     (reset_password utc_platform (default_settings ''k'') 1500 ''s2'' reset_requested_db
        (generate_password_reset_token (default_settings ''k'') 1000 ''a@x.com'')
        [196, 98, 99, 100, 101, 102, 49, 33] None None)
   = Inr (True, None) \<and>
   map password_hash
     (users (committed reset_requested_db
        (reset_password utc_platform (default_settings ''k'') 1500 ''s2'' reset_requested_db
           (generate_password_reset_token (default_settings ''k'') 1000 ''a@x.com'')
           [196, 98, 99, 100, 101, 102, 49, 33] None None)))
   = [ctx_hash utc_platform ''s2'' [196, 98, 99, 100, 101, 102, 49, 33]]"
proof -
  have v: "validate_password_strength utc_platform (default_settings ''k'') [97, 98, 99]
           = \<lparr> is_valid = False, errors = [TooShort 8, NoUppercase, NoNumber, NoSpecial],
               strength_score = 20 \<rparr>"
    by (simp add: validate_password_strength_def default_settings_def utc_platform_def
        isspecial_def)
  have a: "validate_password_strength utc_platform (default_settings ''k'')
             [196, 98, 99, 100, 101, 102, 49, 33]
           = \<lparr> is_valid = True, errors = [], strength_score = 100 \<rparr>"
    by (simp add: validate_password_strength_def default_settings_def utc_platform_def
        isspecial_def)
  have b: "validate_password_strength utc_platform (default_settings ''k'')
             (map of_char ''Str0ng!Pw'')
           = \<lparr> is_valid = True, errors = [], strength_score = 100 \<rparr>"
    by (simp add: validate_password_strength_def default_settings_def utc_platform_def
        isspecial_def)
  have c: "validate_password_strength utc_platform (default_settings ''k'')
             (map of_char ''str0ng!pw'')
           = \<lparr> is_valid = False, errors = [NoUppercase], strength_score = 80 \<rparr>"
    by (simp add: validate_password_strength_def default_settings_def utc_platform_def
        isspecial_def)
  have r: "reset_password utc_platform (default_settings ''k'') 1500 ''s2'' reset_requested_db
     (generate_password_reset_token (default_settings ''k'') 1000 ''a@x.com'') [97, 98, 99]
     None None
   = Inr (reset_requested_db, False,
          Some (PasswordValidationFailed [TooShort 8, NoUppercase, NoNumber, NoSpecial]))"
    unfolding reset_password_def v
    by (simp add: reset_requested_db_def service_eval token_eval)
  have s: "map_sum id snd
     (reset_password utc_platform (default_settings ''k'') 1500 ''s2'' reset_requested_db
        (generate_password_reset_token (default_settings ''k'') 1000 ''a@x.com'')
        [196, 98, 99, 100, 101, 102, 49, 33] None None)
   = Inr (True, None) \<and>
   map password_hash
     (users (committed reset_requested_db
        (reset_password utc_platform (default_settings ''k'') 1500 ''s2'' reset_requested_db
           (generate_password_reset_token (default_settings ''k'') 1000 ''a@x.com'')
           [196, 98, 99, 100, 101, 102, 49, 33] None None)))
   = [ctx_hash utc_platform ''s2'' [196, 98, 99, 100, 101, 102, 49, 33]]"
    unfolding reset_password_def a
    by (simp add: reset_requested_db_def service_eval token_eval Let_def)
  show ?thesis
    using password_policy [of utc_platform "default_settings ''k''" "[97, 98, 99]"
        reset_requested_db 1500 "''s2''"
        "generate_password_reset_token (default_settings ''k'') 1000 ''a@x.com''" None None]
      v a b c r s
    by simp
qed

section \<open>Password reset requests\<close>

lemma request_password_reset_fresh:
  assumes "\<forall>usr. get_user_by_email d e = Some usr \<and> is_active usr \<longrightarrow>
             generate_password_reset_token cfg now (email usr) \<notin> set (map pr_token (password_resets d))"
  shows "\<exists>d'. request_password_reset cfg now d e ip ua = Inr (d', True)"
  using assms
  by (auto simp: request_password_reset_def Let_def split: option.splits)

text \<open>
  Claim C8 at the second of two requests for the same active account within one clock
  second: the reset token is a function of the address and the second, the column
  \<open>token\<close> is unique, and the insert fails the commit, while the same call for an address
  that matches no user returns \<open>True\<close>.
\<close>

theorem request_password_reset_duplicate:
  "request_password_reset (default_settings ''k'') 1000 reset_requested_db ''a@x.com'' None None
     = Inl IntegrityError \<and>
   request_password_reset (default_settings ''k'') 1000 reset_requested_db ''b@x.com'' None None
     = Inr (reset_requested_db, True)"
  by (simp add: reset_requested_db_def service_eval token_eval)

section \<open>Logout\<close>

text \<open>
  Claim C10. \<open>logout_user\<close> returns \<open>True\<close> on every input. With a refresh token that
  no session of the user carries, the session table is left as it was. Without a
  refresh token (\<open>None\<close> or the empty string) and without \<open>logout_all_devices\<close>, every
  session of the user is deactivated and no other, the same table as with
  \<open>logout_all_devices\<close>.
\<close>

theorem logout_user_always_succeeds:
  "snd (logout_user d usr rtok all_devices ip ua) = True \<and>
   (token_given (Some tok) \<and>
    (\<forall>s \<in> set (sessions d). \<not> (s_user_id s = u_id usr \<and> refresh_token s = tok)) \<longrightarrow>
      sessions (fst (logout_user d usr (Some tok) False ip ua)) = sessions d) \<and>
   (\<not> token_given rtok \<longrightarrow>
      sessions (fst (logout_user d usr rtok False ip ua)) =
        map (\<lambda>s. if s_user_id s = u_id usr then s\<lparr>s_is_active := False\<rparr> else s) (sessions d) \<and>
      sessions (fst (logout_user d usr rtok False ip ua)) =
        sessions (fst (logout_user d usr rtok' True ip ua)))"
proof (intro conjI impI)
  show "snd (logout_user d usr rtok all_devices ip ua) = True"
    by (simp add: logout_user_def Let_def split: prod.splits)
next
  assume h: "token_given (Some tok) \<and>
    (\<forall>s \<in> set (sessions d). \<not> (s_user_id s = u_id usr \<and> refresh_token s = tok))"
  then have "map (\<lambda>s. if s_user_id s = u_id usr \<and> refresh_token s = tok
                       then s\<lparr>s_is_active := False\<rparr> else s) (sessions d) = sessions d"
    by (intro map_idI) auto
  with h show "sessions (fst (logout_user d usr (Some tok) False ip ua)) = sessions d"
    by (simp add: logout_user_def log_audit_action_def)
next
  assume "\<not> token_given rtok"
  then show "sessions (fst (logout_user d usr rtok False ip ua)) =
        map (\<lambda>s. if s_user_id s = u_id usr then s\<lparr>s_is_active := False\<rparr> else s) (sessions d)"
    by (simp add: logout_user_def log_audit_action_def invalidate_user_sessions_def)
next
  assume "\<not> token_given rtok"
  then show "sessions (fst (logout_user d usr rtok False ip ua)) =
        sessions (fst (logout_user d usr rtok' True ip ua))"
    by (simp add: logout_user_def log_audit_action_def invalidate_user_sessions_def)
qed

lemmas session_eval = logout_user_def token_given_def log_audit_action_def
  invalidate_user_sessions_def example_sessions_db_def example_session_def example_db_def
  example_user_def

text \<open>
  On the three example sessions: an unknown token changes nothing, no token deactivates
  both sessions of \<open>u1\<close> and leaves the session of \<open>u2\<close> active.
\<close>

theorem logout_user_always_succeeds_witness:
  "token_given (Some (Malformed ''unknown'')) \<and>
   filter (\<lambda>s. s_user_id s = u_id example_user \<and> refresh_token s = Malformed ''unknown'')
     (sessions example_sessions_db) = [] \<and>
   snd (logout_user example_sessions_db example_user (Some (Malformed ''unknown'')) False None None)
     = True \<and>
   sessions (fst (logout_user example_sessions_db example_user (Some (Malformed ''unknown''))
                    False None None))
     = sessions example_sessions_db \<and>
   \<not> token_given None \<and>
   map s_is_active (sessions (fst (logout_user example_sessions_db example_user None False None None)))
     = [False, False, True]"
proof -
  have a: "token_given (Some (Malformed ''unknown''))" "\<not> token_given None"
    by (simp_all add: token_given_def)
  have b: "\<forall>s \<in> set (sessions example_sessions_db).
      \<not> (s_user_id s = u_id example_user \<and> refresh_token s = Malformed ''unknown'')"
    by (simp add: session_eval token_eval)
  have c: "map s_is_active
             (map (\<lambda>s. if s_user_id s = u_id example_user then s\<lparr>s_is_active := False\<rparr> else s)
                (sessions example_sessions_db)) = [False, False, True]"
    by (simp add: example_sessions_db_def example_session_def example_db_def example_user_def)
  have b': "filter (\<lambda>s. s_user_id s = u_id example_user \<and> refresh_token s = Malformed ''unknown'')
     (sessions example_sessions_db) = []"
    using b by (simp add: filter_empty_conv)
  show ?thesis
    using a b b' c
      logout_user_always_succeeds [of example_sessions_db example_user
        "Some (Malformed ''unknown'')" False None None "Malformed ''unknown''"]
      logout_user_always_succeeds [of example_sessions_db example_user None False None None
        "Malformed ''unknown''" None]
    by simp
qed

section \<open>Login and lockout\<close>

lemma find_update_first:
  "find P xs = Some x \<Longrightarrow> P (f x) \<Longrightarrow> find P (update_first P f xs) = Some (f x)"
  by (induction xs) (auto split: if_splits)

lemma find_Some_holds: "find P xs = Some x \<Longrightarrow> P x \<and> x \<in> set xs"
  by (induction xs) (auto split: if_splits)

lemma users_log_audit_action [simp]:
  "users (log_audit_action d a r rid usr ov nv ip ua) = users d"
  by (simp add: log_audit_action_def)

lemma sessions_log_audit_action [simp]:
  "sessions (log_audit_action d a r rid usr ov nv ip ua) = sessions d"
  by (simp add: log_audit_action_def)

lemma password_resets_log_audit_action [simp]:
  "password_resets (log_audit_action d a r rid usr ov nv ip ua) = password_resets d"
  by (simp add: log_audit_action_def)

lemma authenticate_user_locked:
  assumes "get_user_by_email d (lr_email req) = Some u"
    and "is_locked u" and "locked_until u = Some lu" and "now < lu"
  shows "authenticate_user px cfg now d req ip ua
         = (d, None, Some (AccountLocked (((lu - now) mod 86400) div 60)))"
  using assms by (simp add: authenticate_user_def)

lemma authenticate_user_wrong_password:
  assumes "get_user_by_email d (lr_email req) = Some u"
    and "\<not> (is_locked u \<and> (case locked_until u of None \<Rightarrow> True | Some lu \<Rightarrow> now < lu))"
    and "is_active u"
    and "\<not> ctx_verify px (lr_password req) (password_hash u)"
  shows "snd (authenticate_user px cfg now d req ip ua) = (None, Some InvalidEmailOrPassword) \<and>
         get_user_by_email (fst (authenticate_user px cfg now d req ip ua)) (lr_email req)
         = Some (if MAX_LOGIN_ATTEMPTS cfg \<le> failed_login_attempts u + 1
                 then u\<lparr> failed_login_attempts := failed_login_attempts u + 1,
                         is_locked := True,
                         locked_until := Some (now + 60 * LOCKOUT_DURATION_MINUTES cfg) \<rparr>
                 else u\<lparr> failed_login_attempts := failed_login_attempts u + 1 \<rparr>)"
proof -
  have e: "email u = str_lower (lr_email req)"
    using assms(1) find_Some_holds [of "\<lambda>u. email u = str_lower (lr_email req)" "users d" u]
    by (simp add: get_user_by_email_def)
  have f: "find (\<lambda>u. email u = str_lower (lr_email req)) (users d) = Some u"
    using assms(1) by (simp add: get_user_by_email_def)
  show ?thesis
    using assms e
    by (auto simp: authenticate_user_def Let_def get_user_by_email_def
        find_update_first [OF f] split: option.splits)
qed

lemma authenticate_user_success:
  assumes "get_user_by_email d (lr_email req) = Some u"
    and "\<not> (is_locked u \<and> (case locked_until u of None \<Rightarrow> True | Some lu \<Rightarrow> now < lu))"
    and "is_active u"
    and "ctx_verify px (lr_password req) (password_hash u)"
  shows "\<exists>d' u'. authenticate_user px cfg now d req ip ua = (d', Some u', None) \<and>
           get_user_by_email d' (lr_email req) = Some u' \<and>
           \<not> is_locked u' \<and> locked_until u' = (if is_locked u then None else locked_until u) \<and>
           failed_login_attempts u' = (if failed_login_attempts u > 0 then 0 else failed_login_attempts u)"
proof -
  have e: "email u = str_lower (lr_email req)"
    using assms(1) find_Some_holds [of "\<lambda>u. email u = str_lower (lr_email req)" "users d" u]
    by (simp add: get_user_by_email_def)
  have f: "find (\<lambda>u. email u = str_lower (lr_email req)) (users d) = Some u"
    using assms(1) by (simp add: get_user_by_email_def)
  show ?thesis
    using assms e
    by (auto simp: authenticate_user_def Let_def get_user_by_email_def
        find_update_first [OF f] split: option.splits)
qed

lemma authenticate_user_Some:
  assumes "authenticate_user px cfg now d req ip ua = (d', Some u', m)"
  shows "\<exists>u. get_user_by_email d (lr_email req) = Some u \<and>
           \<not> (is_locked u \<and> (case locked_until u of None \<Rightarrow> True | Some lu \<Rightarrow> now < lu)) \<and>
           is_active u \<and> ctx_verify px (lr_password req) (password_hash u)"
  using assms
  by (auto simp: authenticate_user_def Let_def split: option.splits if_splits)

lemma find_update_first_same:
  "find P xs = Some x \<Longrightarrow> P y \<Longrightarrow> find P (update_first P (\<lambda>u. y) xs) = Some y"
  by (induction xs) (auto split: if_splits)

lemma unlock_user_result:
  assumes "unlock_user now d uid by = (d', True)"
  shows "\<exists>u'. get_user_by_id d' uid = Some u' \<and> failed_login_attempts u' = 0 \<and>
           \<not> is_locked u' \<and> locked_until u' = None"
proof -
  obtain u where f: "find (\<lambda>u. u_id u = uid) (users d) = Some u"
    using assms by (auto simp: unlock_user_def get_user_by_id_def split: option.splits)
  let ?u' = "u\<lparr> is_locked := False, locked_until := None, failed_login_attempts := 0,
                 updated_at := now \<rparr>"
  have i: "u_id ?u' = uid"
    using find_Some_holds [OF f] by simp
  have "users d' = update_first (\<lambda>u. u_id u = uid) (\<lambda>u. ?u') (users d)"
    using assms f by (auto simp: unlock_user_def get_user_by_id_def Let_def)
  then have "get_user_by_id d' uid = Some ?u'"
    using find_update_first_same [OF f, of ?u'] i by (simp add: get_user_by_id_def)
  then show ?thesis by simp
qed

section \<open>Evolution of the user table\<close>

text \<open>
  Every call changes the user table as \<open>users_evolve\<close> allows, so both invariants hold
  after every sequence of calls that starts from the empty tables.
\<close>

lemma row_change_refl: "row_change u u"
  by (simp add: row_change_def)

lemma users_evolve_refl: "users_evolve xs xs"
  by (simp add: users_evolve_def list_all2_same row_change_refl)

lemma users_evolve_append: "fresh_row y \<Longrightarrow> users_evolve xs (xs @ [y])"
  by (simp add: users_evolve_def list_all2_same row_change_refl)

lemma length_update_first [simp]: "length (update_first P f xs) = length xs"
  by (induction xs) auto

lemma list_all2_update_first:
  "find P xs = Some usr \<Longrightarrow> row_change usr y \<Longrightarrow>
     list_all2 row_change xs (update_first P (\<lambda>u. y) xs)"
  by (induction xs) (auto simp: list_all2_same row_change_refl split: if_splits)

lemma users_evolve_update:
  "find P xs = Some usr \<Longrightarrow> row_change usr y \<Longrightarrow>
     users_evolve xs (update_first P (\<lambda>u. y) xs)"
  by (simp add: users_evolve_def list_all2_update_first)

lemma users_invalidate_user_sessions [simp]:
  "users (invalidate_user_sessions d uid) = users d"
  by (simp add: invalidate_user_sessions_def)

lemma evolve_create_user:
  "users_evolve (users d) (users (committed d (create_user px cfg now new_id salt d uc by)))"
  by (auto simp: create_user_def committed_def Let_def fresh_row_def
      split: option.splits intro!: users_evolve_refl users_evolve_append)

lemma evolve_update_user:
  "users_evolve (users d) (users (committed d (update_user now d uid upd by)))"
  by (auto simp: update_user_def committed_def Let_def get_user_by_id_def row_change_def
      split: option.splits intro!: users_evolve_refl users_evolve_update)

lemma evolve_update_user_profile:
  "users_evolve (users d) (users (committed d (update_user_profile now d uid upd)))"
  by (auto simp: update_user_profile_def committed_def Let_def get_user_by_id_def row_change_def
      split: option.splits intro!: users_evolve_refl users_evolve_update)

lemma evolve_change_password:
  "users_evolve (users d) (users (committed d (change_password px cfg now salt d uid pc)))"
  by (auto simp: change_password_def committed_def Let_def get_user_by_id_def row_change_def
      split: option.splits intro!: users_evolve_refl users_evolve_update)

lemma evolve_delete_user:
  "users_evolve (users d) (users (fst (delete_user now d uid by)))"
  by (auto simp: delete_user_def Let_def get_user_by_id_def row_change_def
      split: option.splits intro!: users_evolve_refl users_evolve_update)

lemma evolve_lock_user:
  "users_evolve (users d) (users (fst (lock_user now d uid by)))"
  by (auto simp: lock_user_def Let_def get_user_by_id_def row_change_def lock_consistent_def
      split: option.splits intro!: users_evolve_refl users_evolve_update)

lemma evolve_unlock_user:
  "users_evolve (users d) (users (fst (unlock_user now d uid by)))"
  by (auto simp: unlock_user_def Let_def get_user_by_id_def row_change_def lock_consistent_def
      split: option.splits intro!: users_evolve_refl users_evolve_update)

lemma evolve_authenticate_user:
  "users_evolve (users d) (users (fst (authenticate_user px cfg now d req ip ua)))"
  by (auto simp: authenticate_user_def Let_def get_user_by_email_def row_change_def
      lock_consistent_def
      split: option.splits intro!: users_evolve_refl users_evolve_update)

lemma users_create_user_session:
  "users (committed d (create_user_session cfg now jti new_id d usr remember dev ip ua)) = users d"
  by (simp add: create_user_session_def committed_def Let_def)

lemma users_refresh_access_token:
  "users (committed d (refresh_access_token px cfg now d rtok ip ua)) = users d"
  by (auto simp: refresh_access_token_def committed_def Let_def
      split: sum.splits option.splits if_splits prod.splits)

lemma users_logout_user:
  "users (fst (logout_user d usr rtok all_devices ip ua)) = users d"
  by (auto simp: logout_user_def Let_def split: option.splits if_splits)

lemma users_request_password_reset:
  "users (committed d (request_password_reset cfg now d e ip ua)) = users d"
  by (auto simp: request_password_reset_def committed_def Let_def
      split: sum.splits option.splits if_splits)

lemma evolve_reset_password:
  "users_evolve (users d) (users (committed d (reset_password px cfg now salt d tok pw ip ua)))"
  by (auto simp: reset_password_def committed_def Let_def get_user_by_email_def row_change_def
      split: sum.splits option.splits if_splits jval.splits
      intro!: users_evolve_refl users_evolve_update)

lemma users_revoke_session:
  "users (fst (revoke_session d usr sid ip ua)) = users d"
  by (auto simp: revoke_session_def Let_def split: option.splits)

lemma users_cleanup_expired_sessions:
  "users (fst (cleanup_expired_sessions now d)) = users d"
  by (simp add: cleanup_expired_sessions_def)

lemma step_users_evolve: "users_evolve (users d) (users (step px cfg now c d))"
  by (cases c)
     (simp_all add: evolve_create_user evolve_update_user evolve_update_user_profile
        evolve_change_password evolve_delete_user evolve_lock_user evolve_unlock_user
        evolve_authenticate_user users_create_user_session users_refresh_access_token
        users_logout_user users_request_password_reset evolve_reset_password
        users_revoke_session users_cleanup_expired_sessions users_evolve_refl)

lemma list_all2_row_change_counter:
  "list_all2 row_change xs ys \<Longrightarrow> list_all (\<lambda>u. 0 \<le> failed_login_attempts u) xs \<Longrightarrow>
     list_all (\<lambda>u. 0 \<le> failed_login_attempts u) ys"
  by (induction rule: list_all2_induct) (auto simp: row_change_def)

lemma list_all2_row_change_lock:
  "list_all2 row_change xs ys \<Longrightarrow> list_all lock_consistent xs \<Longrightarrow> list_all lock_consistent ys"
  by (induction rule: list_all2_induct) (auto simp: row_change_def lock_consistent_def)

lemma users_evolve_counter:
  assumes "users_evolve xs ys" and "list_all (\<lambda>u. 0 \<le> failed_login_attempts u) xs"
  shows "list_all (\<lambda>u. 0 \<le> failed_login_attempts u) ys"
proof -
  have a: "list_all (\<lambda>u. 0 \<le> failed_login_attempts u) (take (length xs) ys)"
    using assms list_all2_row_change_counter by (auto simp: users_evolve_def)
  have b: "list_all (\<lambda>u. 0 \<le> failed_login_attempts u) (drop (length xs) ys)"
    using assms(1) by (auto simp: users_evolve_def fresh_row_def list_all_iff)
  have "list_all (\<lambda>u. 0 \<le> failed_login_attempts u) (take (length xs) ys @ drop (length xs) ys)"
    using a b by (simp only: list_all_append simp_thms)
  then show ?thesis by simp
qed

lemma users_evolve_lock:
  assumes "users_evolve xs ys" and "list_all lock_consistent xs"
  shows "list_all lock_consistent ys"
proof -
  have a: "list_all lock_consistent (take (length xs) ys)"
    using assms list_all2_row_change_lock by (auto simp: users_evolve_def)
  have b: "list_all lock_consistent (drop (length xs) ys)"
    using assms(1) by (auto simp: users_evolve_def fresh_row_def lock_consistent_def list_all_iff)
  have "list_all lock_consistent (take (length xs) ys @ drop (length xs) ys)"
    using a b by (simp only: list_all_append simp_thms)
  then show ?thesis by simp
qed

lemma counter_invariant_step:
  "counter_invariant d \<Longrightarrow> counter_invariant (step px cfg now c d)"
  unfolding counter_invariant_def using users_evolve_counter [OF step_users_evolve] .

lemma counter_invariant_run:
  "counter_invariant d \<Longrightarrow> counter_invariant (run px cfg cs d)"
  by (induction cs arbitrary: d) (auto simp: counter_invariant_step)

lemma lock_invariant_step:
  "lock_invariant d \<Longrightarrow> lock_invariant (step px cfg now c d)"
  unfolding lock_invariant_def using users_evolve_lock [OF step_users_evolve] .

lemma lock_invariant_run:
  "lock_invariant d \<Longrightarrow> lock_invariant (run px cfg cs d)"
  by (induction cs arbitrary: d) (auto simp: lock_invariant_step)

lemma counter_invariant_reachable: "counter_invariant (run px cfg cs empty_db)"
  by (rule counter_invariant_run) (simp add: counter_invariant_def empty_db_def)

lemma lock_invariant_reachable: "lock_invariant (run px cfg cs empty_db)"
  by (rule lock_invariant_run) (simp add: lock_invariant_def empty_db_def)

section \<open>Successful login and unlock\<close>

text \<open>
  Claim C6. In every state of the tables that a sequence of service calls reaches from
  the empty tables, whatever the counter of the user is there: when \<open>authenticate_user\<close>
  returns a user, the row stored for that user is the returned one and its
  \<open>failed_login_attempts\<close> is 0. The code resets the counter only when it is positive;
  a created user starts at 0 and every call keeps the counter, adds 1 to it or sets it
  to 0, so it is never negative (\<open>counter_invariant_reachable\<close>). In every state of the
  tables, when \<open>unlock_user\<close> returns \<open>True\<close>, the row of the user has the counter 0.
\<close>

theorem successful_login_resets_counter:
  "(fst (snd (authenticate_user px cfg now (run px cfg cs empty_db) req ip ua)) = Some u' \<longrightarrow>
      get_user_by_email (fst (authenticate_user px cfg now (run px cfg cs empty_db) req ip ua))
        (lr_email req) = Some u' \<and>
      failed_login_attempts u' = 0) \<and>
   (snd (unlock_user now d uid by) = True \<longrightarrow>
      (\<exists>v. get_user_by_id (fst (unlock_user now d uid by)) uid = Some v \<and>
           failed_login_attempts v = 0))"
proof (intro conjI impI)
  let ?d = "run px cfg cs empty_db"
  assume h: "fst (snd (authenticate_user px cfg now ?d req ip ua)) = Some u'"
  obtain d' m where r: "authenticate_user px cfg now ?d req ip ua = (d', Some u', m)"
    using h by (cases "authenticate_user px cfg now ?d req ip ua") auto
  then obtain u where u: "get_user_by_email ?d (lr_email req) = Some u"
      "\<not> (is_locked u \<and> (case locked_until u of None \<Rightarrow> True | Some lu \<Rightarrow> now < lu))"
      "is_active u" "ctx_verify px (lr_password req) (password_hash u)"
    using authenticate_user_Some by blast
  have "u \<in> set (users ?d)"
    using u(1) find_Some_holds [of "\<lambda>u. email u = str_lower (lr_email req)" "users ?d" u]
    by (simp add: get_user_by_email_def)
  then have n: "0 \<le> failed_login_attempts u"
    using counter_invariant_reachable [of px cfg cs]
    by (simp add: counter_invariant_def list_all_iff)
  from authenticate_user_success [OF u, of cfg ip ua] r
  show "get_user_by_email (fst (authenticate_user px cfg now ?d req ip ua)) (lr_email req) = Some u'"
    by auto
  from authenticate_user_success [OF u, of cfg ip ua] r n
  show "failed_login_attempts u' = 0" by (auto split: if_splits)
next
  assume "snd (unlock_user now d uid by) = True"
  then have "unlock_user now d uid by = (fst (unlock_user now d uid by), True)"
    by (cases "unlock_user now d uid by") auto
  then show "\<exists>v. get_user_by_id (fst (unlock_user now d uid by)) uid = Some v \<and>
           failed_login_attempts v = 0"
    using unlock_user_result by blast
qed

lemmas login_eval = authenticate_user_def unlock_user_def get_user_by_email_def get_user_by_id_def
  log_audit_action_def str_lower_def lower_char_def ascii_upper_def example_db_def example_user_def
  default_settings_def utc_platform_def

lemma example_calls_users:
  "users (run utc_platform (default_settings ''k'') example_calls empty_db)
   = [example_user\<lparr>failed_login_attempts := 1\<rparr>]"
  by (simp add: example_calls_def example_signup_def empty_db_def create_user_def committed_def
      validate_password_strength_def isspecial_def wrong_login_def login_eval Let_def
      char_of_def bit_Suc_0_iff)

text \<open>
  A user is created and fails one login, which leaves the counter at 1; the login with
  the right password returns the user with the counter 0, and so does an unlock.
\<close>

theorem successful_login_resets_counter_witness:
  "map failed_login_attempts (users (run utc_platform (default_settings ''k'') example_calls empty_db))
     = [1] \<and>
   fst (snd (authenticate_user utc_platform (default_settings ''k'') 1001
               (run utc_platform (default_settings ''k'') example_calls empty_db) right_login
               None None))
     = Some (example_user\<lparr>failed_login_attempts := 0, last_login := Some 1001\<rparr>) \<and>
   get_user_by_email
     (fst (authenticate_user utc_platform (default_settings ''k'') 1001
             (run utc_platform (default_settings ''k'') example_calls empty_db) right_login
             None None)) (lr_email right_login)
     = Some (example_user\<lparr>failed_login_attempts := 0, last_login := Some 1001\<rparr>) \<and>
   failed_login_attempts (example_user\<lparr>failed_login_attempts := 0, last_login := Some 1001\<rparr>) = 0 \<and>
   snd (unlock_user 1001 (run utc_platform (default_settings ''k'') example_calls empty_db)
          ''u1'' None) = True \<and>
   map_option failed_login_attempts
     (get_user_by_id
        (fst (unlock_user 1001 (run utc_platform (default_settings ''k'') example_calls empty_db)
                ''u1'' None)) ''u1'') = Some 0"
proof -
  let ?d = "run utc_platform (default_settings ''k'') example_calls empty_db"
  have a: "fst (snd (authenticate_user utc_platform (default_settings ''k'') 1001 d
                       right_login None None))
     = Some (example_user\<lparr>failed_login_attempts := 0, last_login := Some 1001\<rparr>)"
    if "users d = [example_user\<lparr>failed_login_attempts := 1\<rparr>]" for d
    using that
    by (simp add: authenticate_user_def get_user_by_email_def right_login_def
        str_lower_def lower_char_def ascii_upper_def example_user_def utc_platform_def Let_def)
  have c: "snd (unlock_user 1001 d ''u1'' None) = True"
    if "users d = [example_user\<lparr>failed_login_attempts := 1\<rparr>]" for d :: db
    using that
    by (simp add: unlock_user_def get_user_by_id_def example_user_def)
  show ?thesis
    using a [OF example_calls_users] c [OF example_calls_users] example_calls_users
      successful_login_resets_counter [of utc_platform "default_settings ''k''" 1001 example_calls
        right_login None None "example_user\<lparr>failed_login_attempts := 0, last_login := Some 1001\<rparr>"
        "run utc_platform (default_settings ''k'') example_calls empty_db" "''u1''" None]
    by auto
qed

section \<open>Lockout\<close>

text \<open>
  Claim C1. A failed password check that brings the counter of an active, unlocked user
  to \<open>MAX_LOGIN_ATTEMPTS\<close> or beyond stores the user locked until the time of that call
  plus \<open>LOCKOUT_DURATION_MINUTES\<close>. Every later call for that address made before that
  time returns the account-locked message with the remaining minutes and the tables as
  they were, whatever the password; a call at or after that time with a password that
  verifies returns the user, unlocked.
\<close>

theorem lockout_after_threshold:
  "get_user_by_email d (lr_email req) = Some u \<and> is_active u \<and> \<not> is_locked u \<and>
   \<not> ctx_verify px (lr_password req) (password_hash u) \<and>
   MAX_LOGIN_ATTEMPTS cfg \<le> failed_login_attempts u + 1 \<longrightarrow>
     snd (authenticate_user px cfg t0 d req ip ua) = (None, Some InvalidEmailOrPassword) \<and>
     get_user_by_email (fst (authenticate_user px cfg t0 d req ip ua)) (lr_email req)
       = Some (u\<lparr> failed_login_attempts := failed_login_attempts u + 1, is_locked := True,
                  locked_until := Some (t0 + 60 * LOCKOUT_DURATION_MINUTES cfg) \<rparr>) \<and>
     (\<forall>t req' ip' ua'.
        lr_email req' = lr_email req \<and> t < t0 + 60 * LOCKOUT_DURATION_MINUTES cfg \<longrightarrow>
          authenticate_user px cfg t (fst (authenticate_user px cfg t0 d req ip ua)) req' ip' ua'
          = (fst (authenticate_user px cfg t0 d req ip ua), None,
             Some (AccountLocked (((t0 + 60 * LOCKOUT_DURATION_MINUTES cfg - t) mod 86400) div 60)))) \<and>
     (\<forall>t req' ip' ua'.
        lr_email req' = lr_email req \<and> t0 + 60 * LOCKOUT_DURATION_MINUTES cfg \<le> t \<and>
        ctx_verify px (lr_password req') (password_hash u) \<longrightarrow>
          (\<exists>u2. snd (authenticate_user px cfg t (fst (authenticate_user px cfg t0 d req ip ua))
                       req' ip' ua') = (Some u2, None) \<and>
                \<not> is_locked u2 \<and> locked_until u2 = None))"
proof (intro impI)
  assume h: "get_user_by_email d (lr_email req) = Some u \<and> is_active u \<and> \<not> is_locked u \<and>
   \<not> ctx_verify px (lr_password req) (password_hash u) \<and>
   MAX_LOGIN_ATTEMPTS cfg \<le> failed_login_attempts u + 1"
  let ?d1 = "fst (authenticate_user px cfg t0 d req ip ua)"
  let ?lu = "t0 + 60 * LOCKOUT_DURATION_MINUTES cfg"
  let ?u1 = "u\<lparr> failed_login_attempts := failed_login_attempts u + 1, is_locked := True,
                 locked_until := Some ?lu \<rparr>"
  have w: "snd (authenticate_user px cfg t0 d req ip ua) = (None, Some InvalidEmailOrPassword)"
    "get_user_by_email ?d1 (lr_email req) = Some ?u1"
    using authenticate_user_wrong_password [of d req u t0 px cfg ip ua] h by simp_all
  have locked: "authenticate_user px cfg t ?d1 req' ip' ua'
          = (?d1, None, Some (AccountLocked (((?lu - t) mod 86400) div 60)))"
    if "lr_email req' = lr_email req \<and> t < ?lu" for t req' ip' ua'
    using authenticate_user_locked [of ?d1 req' ?u1 ?lu t px cfg ip' ua'] w(2) that by simp
  have again: "\<exists>u2. snd (authenticate_user px cfg t ?d1 req' ip' ua') = (Some u2, None) \<and>
                \<not> is_locked u2 \<and> locked_until u2 = None"
    if "lr_email req' = lr_email req \<and> ?lu \<le> t \<and>
        ctx_verify px (lr_password req') (password_hash u)" for t req' ip' ua'
    using authenticate_user_success [of ?d1 req' ?u1 t px cfg ip' ua'] w(2) h that by auto
  show "snd (authenticate_user px cfg t0 d req ip ua) = (None, Some InvalidEmailOrPassword) \<and>
     get_user_by_email ?d1 (lr_email req) = Some ?u1 \<and>
     (\<forall>t req' ip' ua'.
        lr_email req' = lr_email req \<and> t < ?lu \<longrightarrow>
          authenticate_user px cfg t ?d1 req' ip' ua'
          = (?d1, None, Some (AccountLocked (((?lu - t) mod 86400) div 60)))) \<and>
     (\<forall>t req' ip' ua'.
        lr_email req' = lr_email req \<and> ?lu \<le> t \<and>
        ctx_verify px (lr_password req') (password_hash u) \<longrightarrow>
          (\<exists>u2. snd (authenticate_user px cfg t ?d1 req' ip' ua') = (Some u2, None) \<and>
                \<not> is_locked u2 \<and> locked_until u2 = None))"
    using w locked again by blast
qed

lemma four_failures_users:
  "users four_failures_db = [example_user\<lparr>failed_login_attempts := 4\<rparr>]"
  by (simp add: four_failures_db_def wrong_login_def login_eval Let_def)

text \<open>
  With the default threshold 5 and duration 30 minutes: after four failures the fifth,
  at time 1004, locks the account until 2804; the right password is refused at 1005
  with 29 minutes to go, and accepted at 2804.
\<close>

theorem lockout_after_threshold_witness:
  "get_user_by_email four_failures_db (lr_email wrong_login)
     = Some (example_user\<lparr>failed_login_attempts := 4\<rparr>) \<and>
   is_active (example_user\<lparr>failed_login_attempts := 4\<rparr>) \<and>
   \<not> is_locked (example_user\<lparr>failed_login_attempts := 4\<rparr>) \<and>
   \<not> ctx_verify utc_platform (lr_password wrong_login)
       (password_hash (example_user\<lparr>failed_login_attempts := 4\<rparr>)) \<and>
   MAX_LOGIN_ATTEMPTS (default_settings ''k'')
     \<le> failed_login_attempts (example_user\<lparr>failed_login_attempts := 4\<rparr>) + 1 \<and>
   get_user_by_email
     (fst (authenticate_user utc_platform (default_settings ''k'') 1004 four_failures_db wrong_login
             None None)) (lr_email wrong_login)
     = Some (example_user\<lparr>failed_login_attempts := 5, is_locked := True,
                           locked_until := Some 2804\<rparr>) \<and>
   authenticate_user utc_platform (default_settings ''k'') 1005
     (fst (authenticate_user utc_platform (default_settings ''k'') 1004 four_failures_db wrong_login
             None None)) right_login None None
     = (fst (authenticate_user utc_platform (default_settings ''k'') 1004 four_failures_db
               wrong_login None None), None, Some (AccountLocked 29)) \<and>
   (\<exists>u2. snd (authenticate_user utc_platform (default_settings ''k'') 2804
                 (fst (authenticate_user utc_platform (default_settings ''k'') 1004
                         four_failures_db wrong_login None None)) right_login None None)
          = (Some u2, None) \<and> \<not> is_locked u2 \<and> locked_until u2 = None)"
proof -
  let ?u = "example_user\<lparr>failed_login_attempts := 4\<rparr>"
  have h: "get_user_by_email four_failures_db (lr_email wrong_login) = Some ?u"
    "is_active ?u" "\<not> is_locked ?u"
    "\<not> ctx_verify utc_platform (lr_password wrong_login) (password_hash ?u)"
    "MAX_LOGIN_ATTEMPTS (default_settings ''k'') \<le> failed_login_attempts ?u + 1"
    by (simp_all add: get_user_by_email_def four_failures_users wrong_login_def str_lower_def
        lower_char_def ascii_upper_def example_user_def utc_platform_def default_settings_def)
  have e: "lr_email right_login = lr_email wrong_login"
    "(1005::int) < 1004 + 60 * LOCKOUT_DURATION_MINUTES (default_settings ''k'')"
    "1004 + 60 * LOCKOUT_DURATION_MINUTES (default_settings ''k'') \<le> (2804::int)"
    "ctx_verify utc_platform (lr_password right_login) (password_hash ?u)"
    "((1004 + 60 * LOCKOUT_DURATION_MINUTES (default_settings ''k'') - 1005) mod 86400) div 60 = 29"
    "1004 + 60 * LOCKOUT_DURATION_MINUTES (default_settings ''k'') = 2804"
    "failed_login_attempts ?u + 1 = 5"
    by (simp_all add: right_login_def wrong_login_def default_settings_def utc_platform_def
        example_user_def)
  note t = lockout_after_threshold [of four_failures_db wrong_login ?u utc_platform
      "default_settings ''k''" 1004 None None]
  have c: "get_user_by_email
     (fst (authenticate_user utc_platform (default_settings ''k'') 1004 four_failures_db wrong_login
             None None)) (lr_email wrong_login)
     = Some (example_user\<lparr>failed_login_attempts := 5, is_locked := True,
                           locked_until := Some 2804\<rparr>)"
    using t h e(6,7) by simp
  have l: "authenticate_user utc_platform (default_settings ''k'') 1005
     (fst (authenticate_user utc_platform (default_settings ''k'') 1004 four_failures_db wrong_login
             None None)) right_login None None
     = (fst (authenticate_user utc_platform (default_settings ''k'') 1004 four_failures_db
               wrong_login None None), None, Some (AccountLocked 29))"
    using t h e(1,2,5) by metis
  have s: "\<exists>u2. snd (authenticate_user utc_platform (default_settings ''k'') 2804
                 (fst (authenticate_user utc_platform (default_settings ''k'') 1004
                         four_failures_db wrong_login None None)) right_login None None)
          = (Some u2, None) \<and> \<not> is_locked u2 \<and> locked_until u2 = None"
    using t h e(1,3,4) by blast
  show ?thesis using h c l s by blast
qed

section \<open>The lock invariant\<close>

lemma create_user_fresh:
  assumes "create_user px cfg now new_id salt d uc by = Inr (d', u)"
  shows "users d' = users d @ [u] \<and> \<not> is_locked u \<and> locked_until u = None"
  using assms
  by (auto simp: create_user_def Let_def split: option.splits if_splits)

text \<open>
  Claim C7. A user that is not locked has no \<open>locked_until\<close>: this holds in every state
  that a sequence of service calls reaches from the empty tables, and every call keeps
  it. In one call every row of the user table keeps its place and its identifier, and
  its \<open>locked_until\<close> stays what it was, or becomes null, or the row is locked
  afterwards; the rows the call adds are unlocked with no \<open>locked_until\<close>. The user
  \<open>create_user\<close> returns is the row it adds, unlocked with no \<open>locked_until\<close>; after
  \<open>unlock_user\<close> returns \<open>True\<close> the row of the user is unlocked with no \<open>locked_until\<close>;
  and when a login of a locked user succeeds, which it does only once the lock has
  expired, the row stored is the returned one, unlocked with no \<open>locked_until\<close>.
\<close>

theorem lock_invariant_preserved:
  "lock_invariant (run px cfg cs empty_db) \<and>
   (lock_invariant d \<longrightarrow> lock_invariant (step px cfg now c d)) \<and>
   length (users d) \<le> length (users (step px cfg now c d)) \<and>
   (\<forall>i < length (users d).
      u_id (users (step px cfg now c d) ! i) = u_id (users d ! i) \<and>
      (locked_until (users (step px cfg now c d) ! i) = locked_until (users d ! i) \<or>
       locked_until (users (step px cfg now c d) ! i) = None \<or>
       is_locked (users (step px cfg now c d) ! i))) \<and>
   list_all (\<lambda>u. \<not> is_locked u \<and> locked_until u = None)
     (drop (length (users d)) (users (step px cfg now c d))) \<and>
   (create_user px cfg t1 new_id salt d1 uc by1 = Inr (d', u) \<longrightarrow>
      users d' = users d1 @ [u] \<and> \<not> is_locked u \<and> locked_until u = None) \<and>
   (snd (unlock_user t2 d2 uid by2) = True \<longrightarrow>
      (\<exists>v. get_user_by_id (fst (unlock_user t2 d2 uid by2)) uid = Some v \<and>
           \<not> is_locked v \<and> locked_until v = None)) \<and>
   (get_user_by_email d3 (lr_email req) = Some u3 \<and> is_locked u3 \<and>
    fst (snd (authenticate_user px cfg t3 d3 req ip ua)) = Some u' \<longrightarrow>
      get_user_by_email (fst (authenticate_user px cfg t3 d3 req ip ua)) (lr_email req) = Some u' \<and>
      \<not> is_locked u' \<and> locked_until u' = None)"
proof -
  let ?new = "users (step px cfg now c d)"
  have e: "length (users d) \<le> length ?new"
    "list_all2 row_change (users d) (take (length (users d)) ?new)"
    "list_all fresh_row (drop (length (users d)) ?new)"
    using step_users_evolve [of d px cfg now c] by (simp_all add: users_evolve_def)
  have c1: "lock_invariant (run px cfg cs empty_db)"
    by (rule lock_invariant_reachable)
  have c2: "lock_invariant d \<longrightarrow> lock_invariant (step px cfg now c d)"
    by (simp add: lock_invariant_step)
  have c4: "\<forall>i < length (users d).
      u_id (?new ! i) = u_id (users d ! i) \<and>
      (locked_until (?new ! i) = locked_until (users d ! i) \<or>
       locked_until (?new ! i) = None \<or> is_locked (?new ! i))"
  proof (intro allI impI)
    fix i assume i: "i < length (users d)"
    have "row_change (users d ! i) (take (length (users d)) ?new ! i)"
      using e(2) i by (rule list_all2_nthD)
    then have "row_change (users d ! i) (?new ! i)"
      using i by simp
    then show "u_id (?new ! i) = u_id (users d ! i) \<and>
        (locked_until (?new ! i) = locked_until (users d ! i) \<or>
         locked_until (?new ! i) = None \<or> is_locked (?new ! i))"
      by (auto simp: row_change_def lock_consistent_def)
  qed
  have c5: "list_all (\<lambda>u. \<not> is_locked u \<and> locked_until u = None)
     (drop (length (users d)) ?new)"
    using e(3) by (auto simp: fresh_row_def list_all_iff)
  have c6: "create_user px cfg t1 new_id salt d1 uc by1 = Inr (d', u) \<longrightarrow>
      users d' = users d1 @ [u] \<and> \<not> is_locked u \<and> locked_until u = None"
    using create_user_fresh by blast
  have c7: "snd (unlock_user t2 d2 uid by2) = True \<longrightarrow>
      (\<exists>v. get_user_by_id (fst (unlock_user t2 d2 uid by2)) uid = Some v \<and>
           \<not> is_locked v \<and> locked_until v = None)"
  proof
    assume "snd (unlock_user t2 d2 uid by2) = True"
    then have "unlock_user t2 d2 uid by2 = (fst (unlock_user t2 d2 uid by2), True)"
      by (cases "unlock_user t2 d2 uid by2") auto
    then show "\<exists>v. get_user_by_id (fst (unlock_user t2 d2 uid by2)) uid = Some v \<and>
           \<not> is_locked v \<and> locked_until v = None"
      using unlock_user_result by blast
  qed
  have c8: "get_user_by_email d3 (lr_email req) = Some u3 \<and> is_locked u3 \<and>
    fst (snd (authenticate_user px cfg t3 d3 req ip ua)) = Some u' \<longrightarrow>
      get_user_by_email (fst (authenticate_user px cfg t3 d3 req ip ua)) (lr_email req) = Some u' \<and>
      \<not> is_locked u' \<and> locked_until u' = None"
  proof
    assume h: "get_user_by_email d3 (lr_email req) = Some u3 \<and> is_locked u3 \<and>
      fst (snd (authenticate_user px cfg t3 d3 req ip ua)) = Some u'"
    obtain d4 m where r: "authenticate_user px cfg t3 d3 req ip ua = (d4, Some u', m)"
      using h by (cases "authenticate_user px cfg t3 d3 req ip ua") auto
    then obtain u where u: "get_user_by_email d3 (lr_email req) = Some u"
        "\<not> (is_locked u \<and> (case locked_until u of None \<Rightarrow> True | Some lu \<Rightarrow> t3 < lu))"
        "is_active u" "ctx_verify px (lr_password req) (password_hash u)"
      using authenticate_user_Some by blast
    have "u = u3" using u(1) h by simp
    then show "get_user_by_email (fst (authenticate_user px cfg t3 d3 req ip ua)) (lr_email req)
        = Some u' \<and> \<not> is_locked u' \<and> locked_until u' = None"
      using authenticate_user_success [OF u, of cfg ip ua] r h by auto
  qed
  show ?thesis
    by (intro conjI c1 c2 e(1) c4 c5 c6 c7 c8)
qed

lemma created_db_users: "users created_db = [example_user]"
  by (simp add: created_db_def example_signup_def empty_db_def create_user_def committed_def
      validate_password_strength_def isspecial_def login_eval Let_def char_of_def bit_Suc_0_iff)

lemma create_user_example:
  "create_user utc_platform (default_settings ''k'') 0 ''u1'' ''salt'' empty_db example_signup None
   = Inr (created_db, example_user)"
  by (simp add: created_db_def example_signup_def empty_db_def create_user_def committed_def
      validate_password_strength_def isspecial_def login_eval Let_def char_of_def bit_Suc_0_iff)

lemma locked_db_users:
  "users locked_db
   = [example_user\<lparr>failed_login_attempts := 5, is_locked := True, locked_until := Some 2804\<rparr>]"
  by (simp add: locked_db_def authenticate_user_def get_user_by_email_def four_failures_users
      wrong_login_def str_lower_def lower_char_def ascii_upper_def example_user_def
      utc_platform_def default_settings_def Let_def)

text \<open>
  The fifth failed login locks the example user until 2804, a \<open>locked_until\<close> set
  together with \<open>is_locked\<close>; the user as created, the user after an unlock at 2000 and
  the user after the login at 2804 are unlocked with no \<open>locked_until\<close>.
\<close>

theorem lock_invariant_preserved_witness:
  "map (\<lambda>u. (is_locked u, locked_until u)) (users four_failures_db) = [(False, None)] \<and>
   lock_invariant four_failures_db \<and>
   map (\<lambda>u. (u_id u, is_locked u, locked_until u)) (users locked_db) = [(''u1'', True, Some 2804)] \<and>
   lock_invariant locked_db \<and>
   lock_invariant (run utc_platform (default_settings ''k'') example_calls empty_db) \<and>
   create_user utc_platform (default_settings ''k'') 0 ''u1'' ''salt'' empty_db example_signup None
     = Inr (created_db, example_user) \<and>
   users created_db = users empty_db @ [example_user] \<and>
   \<not> is_locked example_user \<and> locked_until example_user = None \<and>
   snd (unlock_user 2000 locked_db ''u1'' None) = True \<and>
   map_option (\<lambda>u. (is_locked u, locked_until u))
     (get_user_by_id (fst (unlock_user 2000 locked_db ''u1'' None)) ''u1'') = Some (False, None) \<and>
   fst (snd (authenticate_user utc_platform (default_settings ''k'') 2804 locked_db right_login
               None None))
     = Some (example_user\<lparr>last_login := Some 2804\<rparr>) \<and>
   get_user_by_email
     (fst (authenticate_user utc_platform (default_settings ''k'') 2804 locked_db right_login
             None None)) (lr_email right_login)
     = Some (example_user\<lparr>last_login := Some 2804\<rparr>)"
proof -
  let ?l = "example_user\<lparr>failed_login_attempts := 5, is_locked := True, locked_until := Some 2804\<rparr>"
  have a: "lock_invariant four_failures_db"
    by (simp add: lock_invariant_def lock_consistent_def four_failures_users example_user_def)
  have a': "lock_invariant locked_db"
    by (simp add: lock_invariant_def lock_consistent_def locked_db_users)
  have b: "snd (unlock_user 2000 d ''u1'' None) = True" if "users d = [?l]" for d :: db
    using that by (simp add: unlock_user_def get_user_by_id_def example_user_def)
  have c: "get_user_by_email d (lr_email right_login) = Some ?l \<and> is_locked ?l \<and>
      fst (snd (authenticate_user utc_platform (default_settings ''k'') 2804 d right_login
                  None None))
      = Some (example_user\<lparr>last_login := Some 2804\<rparr>)" if "users d = [?l]" for d :: db
    using that
    by (simp add: authenticate_user_def get_user_by_email_def right_login_def
        str_lower_def lower_char_def ascii_upper_def example_user_def utc_platform_def Let_def)
  show ?thesis
    using a a' b [OF locked_db_users] c [OF locked_db_users] locked_db_users four_failures_users
      create_user_example
      lock_invariant_preserved [of utc_platform "default_settings ''k''" example_calls
        four_failures_db 1004 "AuthenticateUser wrong_login None None" 0 "''u1''" "''salt''"
        empty_db example_signup None created_db example_user 2000 locked_db "''u1''" None
        locked_db right_login ?l 2804 None None "example_user\<lparr>last_login := Some 2804\<rparr>"]
    by (auto simp: locked_db_def [symmetric] example_user_def)
qed

section \<open>Evolution of the session table\<close>

text \<open>
  Every call changes the session table as \<open>sessions_evolve\<close> allows, so a revoked token
  stays revoked, and the refresh tokens of the table stay distinct.
\<close>

lemma session_change_refl: "session_change s s"
  by (simp add: session_change_def)

lemma sessions_evolve_refl: "sessions_evolve xs xs"
  by (simp add: sessions_evolve_def list_all2_same session_change_refl)

lemma sessions_evolve_append:
  "refresh_token y \<notin> set (map refresh_token xs) \<Longrightarrow> sessions_evolve xs (xs @ [y])"
  by (simp add: sessions_evolve_def list_all2_same session_change_refl)

lemma list_all2_session_map:
  "(\<And>x. session_change x (f x)) \<Longrightarrow> list_all2 session_change xs (map f xs)"
  by (induction xs) auto

lemma list_all2_session_update_first:
  "(\<And>x. session_change x (f x)) \<Longrightarrow> list_all2 session_change xs (update_first P f xs)"
  by (induction xs) (auto simp: list_all2_same session_change_refl)

lemma sessions_evolve_map:
  "(\<And>x. session_change x (f x)) \<Longrightarrow> sessions_evolve xs (map f xs)"
  by (simp add: sessions_evolve_def list_all2_session_map)

lemma sessions_evolve_update_first:
  "(\<And>x. session_change x (f x)) \<Longrightarrow> sessions_evolve xs (update_first P f xs)"
  by (simp add: sessions_evolve_def list_all2_session_update_first)

lemma evolve_invalidate_user_sessions:
  "sessions_evolve (sessions d) (sessions (invalidate_user_sessions d uid))"
  by (simp add: invalidate_user_sessions_def sessions_evolve_map session_change_def)

lemma sessions_create_user:
  "sessions (committed d (create_user px cfg now new_id salt d uc by)) = sessions d"
  by (auto simp: create_user_def committed_def Let_def split: option.splits)

lemma sessions_update_user:
  "sessions (committed d (update_user now d uid upd by)) = sessions d"
  by (auto simp: update_user_def committed_def Let_def split: option.splits)

lemma sessions_update_user_profile:
  "sessions (committed d (update_user_profile now d uid upd)) = sessions d"
  by (auto simp: update_user_profile_def committed_def Let_def split: option.splits)

lemma sessions_evolve_change_password:
  "sessions_evolve (sessions d) (sessions (committed d (change_password px cfg now salt d uid pc)))"
  by (auto simp: change_password_def committed_def Let_def invalidate_user_sessions_def
      session_change_def
      split: option.splits intro!: sessions_evolve_refl sessions_evolve_map)

lemma sessions_evolve_delete_user:
  "sessions_evolve (sessions d) (sessions (fst (delete_user now d uid by)))"
  by (auto simp: delete_user_def Let_def invalidate_user_sessions_def session_change_def
      split: option.splits intro!: sessions_evolve_refl sessions_evolve_map)

lemma sessions_evolve_lock_user:
  "sessions_evolve (sessions d) (sessions (fst (lock_user now d uid by)))"
  by (auto simp: lock_user_def Let_def invalidate_user_sessions_def session_change_def
      split: option.splits intro!: sessions_evolve_refl sessions_evolve_map)

lemma sessions_unlock_user:
  "sessions (fst (unlock_user now d uid by)) = sessions d"
  by (auto simp: unlock_user_def Let_def split: option.splits)

lemma sessions_authenticate_user:
  "sessions (fst (authenticate_user px cfg now d req ip ua)) = sessions d"
  by (auto simp: authenticate_user_def Let_def split: option.splits)

lemma sessions_evolve_create_user_session:
  "sessions_evolve (sessions d)
     (sessions (committed d (create_user_session cfg now jti new_id d usr remember dev ip ua)))"
  by (auto simp: create_user_session_def committed_def Let_def
      intro!: sessions_evolve_refl sessions_evolve_append)

lemma sessions_evolve_refresh_access_token:
  "sessions_evolve (sessions d) (sessions (committed d (refresh_access_token px cfg now d rtok ip ua)))"
  by (auto simp: refresh_access_token_def committed_def Let_def session_change_def
      split: sum.splits option.splits if_splits
      intro!: sessions_evolve_refl sessions_evolve_update_first)

lemma sessions_evolve_logout_user:
  "sessions_evolve (sessions d) (sessions (fst (logout_user d usr rtok all_devices ip ua)))"
  by (auto simp: logout_user_def Let_def invalidate_user_sessions_def session_change_def
      split: option.splits if_splits intro!: sessions_evolve_refl sessions_evolve_map)

lemma sessions_request_password_reset:
  "sessions (committed d (request_password_reset cfg now d e ip ua)) = sessions d"
  by (auto simp: request_password_reset_def committed_def Let_def
      split: sum.splits option.splits if_splits)

lemma sessions_evolve_reset_password:
  "sessions_evolve (sessions d) (sessions (committed d (reset_password px cfg now salt d tok pw ip ua)))"
  by (auto simp: reset_password_def committed_def Let_def invalidate_user_sessions_def
      session_change_def
      split: sum.splits option.splits if_splits jval.splits
      intro!: sessions_evolve_refl sessions_evolve_map)

lemma sessions_evolve_revoke_session:
  "sessions_evolve (sessions d) (sessions (fst (revoke_session d usr sid ip ua)))"
  by (auto simp: revoke_session_def Let_def session_change_def
      split: option.splits intro!: sessions_evolve_refl sessions_evolve_update_first)

lemma sessions_evolve_cleanup_expired_sessions:
  "sessions_evolve (sessions d) (sessions (fst (cleanup_expired_sessions now d)))"
  by (auto simp: cleanup_expired_sessions_def session_change_def intro!: sessions_evolve_map)

lemma step_sessions_evolve: "sessions_evolve (sessions d) (sessions (step px cfg now c d))"
  by (cases c)
     (simp_all add: sessions_create_user sessions_update_user sessions_update_user_profile
        sessions_evolve_change_password sessions_evolve_delete_user sessions_evolve_lock_user
        sessions_unlock_user sessions_authenticate_user sessions_evolve_create_user_session
        sessions_evolve_refresh_access_token sessions_evolve_logout_user
        sessions_request_password_reset sessions_evolve_reset_password
        sessions_evolve_revoke_session sessions_evolve_cleanup_expired_sessions
        sessions_evolve_refl)

lemma list_all2_session_tokens:
  "list_all2 session_change xs ys \<Longrightarrow> map refresh_token ys = map refresh_token xs"
  by (induction rule: list_all2_induct) (auto simp: session_change_def)

lemma sessions_evolve_split:
  assumes "sessions_evolve old new"
  shows "new = take (length old) new @ drop (length old) new"
    and "map refresh_token (take (length old) new) = map refresh_token old"
    and "set (map refresh_token (drop (length old) new)) \<inter> set (map refresh_token old) = {}"
    and "distinct (map refresh_token (drop (length old) new))"
    and "list_all2 session_change old (take (length old) new)"
  using assms list_all2_session_tokens [of old "take (length old) new"]
  by (auto simp: sessions_evolve_def list_all_iff)

lemma sessions_evolve_distinct:
  assumes "sessions_evolve old new" and "distinct (map refresh_token old)"
  shows "distinct (map refresh_token new)"
proof -
  note e = sessions_evolve_split [OF assms(1)]
  have "distinct (map refresh_token (take (length old) new) @
                  map refresh_token (drop (length old) new))"
    using e(2,3,4) assms(2) by (simp only: distinct_append) auto
  then have "distinct (map refresh_token (take (length old) new @ drop (length old) new))"
    by (simp only: map_append)
  then show ?thesis using e(1) by simp
qed

lemma list_all2_session_inactive:
  "list_all2 session_change xs ys \<Longrightarrow>
     list_all (\<lambda>s. refresh_token s = tok \<longrightarrow> \<not> s_is_active s) xs \<Longrightarrow>
     list_all (\<lambda>s. refresh_token s = tok \<longrightarrow> \<not> s_is_active s) ys"
  by (induction rule: list_all2_induct) (auto simp: session_change_def)

lemma sessions_evolve_revoked:
  assumes "sessions_evolve (sessions d) (sessions d')" and "revoked d tok"
  shows "revoked d' tok"
proof -
  let ?n = "length (sessions d)"
  note e = sessions_evolve_split [OF assms(1)]
  have t: "tok \<in> set (map refresh_token (sessions d))"
    using assms(2) by (auto simp: revoked_def list_ex_iff)
  have a: "list_all (\<lambda>s. refresh_token s = tok \<longrightarrow> \<not> s_is_active s) (take ?n (sessions d'))"
    using list_all2_session_inactive [OF e(5)] assms(2) by (simp add: revoked_def)
  have b: "list_all (\<lambda>s. refresh_token s = tok \<longrightarrow> \<not> s_is_active s) (drop ?n (sessions d'))"
    using e(3) t by (auto simp: list_all_iff)
  have "list_all (\<lambda>s. refresh_token s = tok \<longrightarrow> \<not> s_is_active s)
          (take ?n (sessions d') @ drop ?n (sessions d'))"
    using a b by (simp only: list_all_append simp_thms)
  then have c: "list_all (\<lambda>s. refresh_token s = tok \<longrightarrow> \<not> s_is_active s) (sessions d')"
    by simp
  have "tok \<in> set (map refresh_token (take ?n (sessions d')))"
    using t e(2) by simp
  then have "tok \<in> set (map refresh_token (sessions d'))"
    by (auto dest: in_set_takeD)
  then show ?thesis using c by (auto simp: revoked_def list_ex_iff)
qed

lemma revoked_step: "revoked d tok \<Longrightarrow> revoked (step px cfg now c d) tok"
  using sessions_evolve_revoked [OF step_sessions_evolve] .

lemma revoked_run: "revoked d tok \<Longrightarrow> revoked (run px cfg cs d) tok"
  by (induction cs arbitrary: d) (auto simp: revoked_step)

lemma distinct_tokens_step:
  "distinct (map refresh_token (sessions d)) \<Longrightarrow>
     distinct (map refresh_token (sessions (step px cfg now c d)))"
  using sessions_evolve_distinct [OF step_sessions_evolve] .

lemma distinct_tokens_run:
  "distinct (map refresh_token (sessions d)) \<Longrightarrow>
     distinct (map refresh_token (sessions (run px cfg cs d)))"
  by (induction cs arbitrary: d) (auto simp: distinct_tokens_step)

lemma distinct_tokens_reachable:
  "distinct (map refresh_token (sessions (run px cfg cs empty_db)))"
  by (rule distinct_tokens_run) (simp add: empty_db_def)

lemma refresh_access_token_revoked:
  assumes "revoked d tok"
  shows "refresh_access_token px cfg now d tok ip ua \<noteq> Inr (d', Some a, m)"
proof -
  have "find (\<lambda>s. refresh_token s = tok \<and> s_is_active s) (sessions d) = None"
    using assms by (auto simp: revoked_def list_all_iff find_None_iff)
  then show ?thesis
    by (auto simp: refresh_access_token_def split: sum.splits option.splits)
qed

lemma refresh_access_token_unchanged:
  assumes "revoked d tok"
  shows "committed d (refresh_access_token px cfg now d tok ip ua) = d"
proof -
  have "find (\<lambda>s. refresh_token s = tok \<and> s_is_active s) (sessions d) = None"
    using assms by (auto simp: revoked_def list_all_iff find_None_iff)
  then show ?thesis
    by (auto simp: refresh_access_token_def committed_def split: sum.splits option.splits)
qed

lemma revoked_after_invalidation:
  assumes "distinct (map refresh_token xs)" and "s \<in> set xs" and "Q s"
  shows "list_ex (\<lambda>x. refresh_token x = refresh_token s)
           (map (\<lambda>x. if Q x then x\<lparr>s_is_active := False\<rparr> else x) xs) \<and>
         list_all (\<lambda>x. refresh_token x = refresh_token s \<longrightarrow> \<not> s_is_active x)
           (map (\<lambda>x. if Q x then x\<lparr>s_is_active := False\<rparr> else x) xs)"
proof -
  let ?f = "\<lambda>x. if Q x then x\<lparr>s_is_active := False\<rparr> else x"
  have i: "x = s" if "x \<in> set xs" "refresh_token x = refresh_token s" for x
    using assms(1,2) that by (auto simp: distinct_map inj_on_def)
  have "?f s \<in> set (map ?f xs)"
    using assms(2) by (simp only: set_map) (rule imageI)
  moreover have "refresh_token (?f s) = refresh_token s"
    by simp
  ultimately have a: "list_ex (\<lambda>x. refresh_token x = refresh_token s) (map ?f xs)"
    unfolding list_ex_iff by blast
  have b: "list_all (\<lambda>x. refresh_token x = refresh_token s \<longrightarrow> \<not> s_is_active x) (map ?f xs)"
    using assms(3) i by (auto simp: list_all_iff)
  show ?thesis using a b by simp
qed

lemma logout_user_revokes:
  assumes "distinct (map refresh_token (sessions d))" and "s \<in> set (sessions d)"
    and "s_user_id s = u_id usr"
  shows "revoked (fst (logout_user d usr (Some (refresh_token s)) all_devices ip ua)) (refresh_token s)"
    and "revoked (fst (logout_user d usr rtok True ip ua)) (refresh_token s)"
  using revoked_after_invalidation [OF assms(1,2), of "\<lambda>x. s_user_id x = u_id usr"]
    revoked_after_invalidation [OF assms(1,2),
      of "\<lambda>x. s_user_id x = u_id usr \<and> refresh_token x = refresh_token s"] assms(3)
  by (auto simp: logout_user_def revoked_def invalidate_user_sessions_def Let_def)

lemma change_password_revokes:
  assumes "distinct (map refresh_token (sessions d))" and "s \<in> set (sessions d)"
    and "s_user_id s = uid" and "change_password px cfg now salt d uid pc = Inr (d', True)"
  shows "revoked d' (refresh_token s)"
  using revoked_after_invalidation [OF assms(1,2), of "\<lambda>x. s_user_id x = uid"] assms(3,4)
  by (auto simp: change_password_def revoked_def invalidate_user_sessions_def Let_def
      split: option.splits if_splits)

lemma reset_password_revokes:
  assumes "distinct (map refresh_token (sessions d))" and "s \<in> set (sessions d)"
    and "verify_password_reset_token cfg now rtok = Inr (Some (JStr addr))"
    and "get_user_by_email d addr = Some usr" and "s_user_id s = u_id usr"
    and "reset_password px cfg now salt d rtok pw ip ua = Inr (d', True, m)"
  shows "revoked d' (refresh_token s)"
  using revoked_after_invalidation [OF assms(1,2), of "\<lambda>x. s_user_id x = u_id usr"] assms(3-6)
  by (auto simp: reset_password_def revoked_def invalidate_user_sessions_def Let_def
      split: option.splits if_splits)

section \<open>Revoked refresh tokens\<close>

text \<open>
  Claim C2. Once a refresh token is revoked it stays revoked through every later sequence
  of service calls, and \<open>refresh_access_token\<close> called with it then never returns an
  access token and commits no change, at any time, so also before the token expires.
  No call makes a session active that was not: in one call every row of the session table
  keeps its place and its refresh token and is active afterwards only if it was before.
  In every state reached from the empty tables, a session of a user is revoked by that
  user's logout with the session's token, by that user's logout from all devices, by a
  successful \<open>change_password\<close> of that user and by a successful \<open>reset_password\<close> for that
  user's address.
\<close>

theorem revoked_token_never_refreshes:
  "(revoked d tok \<longrightarrow>
      revoked (run px cfg cs d) tok \<and>
      refresh_access_token px cfg now (run px cfg cs d) tok ip ua \<noteq> Inr (d', Some a, m) \<and>
      committed (run px cfg cs d) (refresh_access_token px cfg now (run px cfg cs d) tok ip ua)
        = run px cfg cs d) \<and>
   (\<forall>i < length (sessions d0).
      refresh_token (sessions (step px cfg t c d0) ! i) = refresh_token (sessions d0 ! i) \<and>
      (s_is_active (sessions (step px cfg t c d0) ! i) \<longrightarrow> s_is_active (sessions d0 ! i))) \<and>
   (s \<in> set (sessions (run px cfg cs0 empty_db)) \<and> s_user_id s = u_id usr \<longrightarrow>
      revoked (fst (logout_user (run px cfg cs0 empty_db) usr (Some (refresh_token s)) False
                      ip1 ua1)) (refresh_token s) \<and>
      revoked (fst (logout_user (run px cfg cs0 empty_db) usr rtok True ip1 ua1))
        (refresh_token s)) \<and>
   (s \<in> set (sessions (run px cfg cs0 empty_db)) \<and> s_user_id s = u_id usr \<and>
    change_password px cfg t1 salt1 (run px cfg cs0 empty_db) (u_id usr) pc = Inr (d1, True) \<longrightarrow>
      revoked d1 (refresh_token s)) \<and>
   (s \<in> set (sessions (run px cfg cs0 empty_db)) \<and> s_user_id s = u_id usr \<and>
    verify_password_reset_token cfg t2 rtok2 = Inr (Some (JStr addr)) \<and>
    get_user_by_email (run px cfg cs0 empty_db) addr = Some usr \<and>
    reset_password px cfg t2 salt2 (run px cfg cs0 empty_db) rtok2 pw ip2 ua2 = Inr (d2, True, m2) \<longrightarrow>
      revoked d2 (refresh_token s))"
proof -
  let ?D = "run px cfg cs0 empty_db"
  have u: "distinct (map refresh_token (sessions ?D))"
    by (rule distinct_tokens_reachable)
  have c1: "revoked d tok \<longrightarrow>
      revoked (run px cfg cs d) tok \<and>
      refresh_access_token px cfg now (run px cfg cs d) tok ip ua \<noteq> Inr (d', Some a, m) \<and>
      committed (run px cfg cs d) (refresh_access_token px cfg now (run px cfg cs d) tok ip ua)
        = run px cfg cs d"
  proof
    assume "revoked d tok"
    then have r: "revoked (run px cfg cs d) tok" by (rule revoked_run)
    have n: "refresh_access_token px cfg now (run px cfg cs d) tok ip ua \<noteq> Inr (d'', Some a', m')"
      for d'' a' m'
      using r by (rule refresh_access_token_revoked)
    have "committed (run px cfg cs d) (refresh_access_token px cfg now (run px cfg cs d) tok ip ua)
        = run px cfg cs d"
      using refresh_access_token_unchanged [OF r] .
    then show "revoked (run px cfg cs d) tok \<and>
      refresh_access_token px cfg now (run px cfg cs d) tok ip ua \<noteq> Inr (d', Some a, m) \<and>
      committed (run px cfg cs d) (refresh_access_token px cfg now (run px cfg cs d) tok ip ua)
        = run px cfg cs d"
      using r n by simp
  qed
  have c2: "\<forall>i < length (sessions d0).
      refresh_token (sessions (step px cfg t c d0) ! i) = refresh_token (sessions d0 ! i) \<and>
      (s_is_active (sessions (step px cfg t c d0) ! i) \<longrightarrow> s_is_active (sessions d0 ! i))"
  proof (intro allI impI)
    fix i assume i: "i < length (sessions d0)"
    let ?new = "sessions (step px cfg t c d0)"
    have "list_all2 session_change (sessions d0) (take (length (sessions d0)) ?new)"
      using step_sessions_evolve [of d0 px cfg t c] by (simp add: sessions_evolve_def)
    then have "session_change (sessions d0 ! i) (take (length (sessions d0)) ?new ! i)"
      using i by (rule list_all2_nthD)
    then have "session_change (sessions d0 ! i) (?new ! i)"
      using i by simp
    then show "refresh_token (?new ! i) = refresh_token (sessions d0 ! i) \<and>
      (s_is_active (?new ! i) \<longrightarrow> s_is_active (sessions d0 ! i))"
      by (simp add: session_change_def)
  qed
  have c3: "s \<in> set (sessions ?D) \<and> s_user_id s = u_id usr \<longrightarrow>
      revoked (fst (logout_user ?D usr (Some (refresh_token s)) False ip1 ua1)) (refresh_token s) \<and>
      revoked (fst (logout_user ?D usr rtok True ip1 ua1)) (refresh_token s)"
    using logout_user_revokes [OF u] by blast
  have c4: "s \<in> set (sessions ?D) \<and> s_user_id s = u_id usr \<and>
    change_password px cfg t1 salt1 ?D (u_id usr) pc = Inr (d1, True) \<longrightarrow>
      revoked d1 (refresh_token s)"
    using change_password_revokes [OF u] by blast
  have c5: "s \<in> set (sessions ?D) \<and> s_user_id s = u_id usr \<and>
    verify_password_reset_token cfg t2 rtok2 = Inr (Some (JStr addr)) \<and>
    get_user_by_email ?D addr = Some usr \<and>
    reset_password px cfg t2 salt2 ?D rtok2 pw ip2 ua2 = Inr (d2, True, m2) \<longrightarrow>
      revoked d2 (refresh_token s)"
    using reset_password_revokes [OF u] by blast
  show ?thesis
    by (intro conjI c1 c2 c3 c4 c5)
qed

lemma Inr_committed: "map_sum id snd r = Inr b \<Longrightarrow> r = Inr (committed d r, b)"
  by (cases r) (auto simp: committed_def)

lemma session_db_tables:
  "users session_db = [example_user]"
  "sessions session_db = [example_session ''s1'' ''u1'' ''j1'']"
  "password_resets session_db
   = [\<lparr> pr_user_id = ''u1'',
        pr_token = generate_password_reset_token (default_settings ''k'') 1000 ''a@x.com'',
        is_used = False, pr_expires_at = 4600, used_at = None, pr_ip_address = None,
        pr_user_agent = None \<rparr>]"
  by (simp_all add: session_db_def session_calls_def example_signup_def empty_db_def
      create_user_def create_user_session_def request_password_reset_def committed_def
      validate_password_strength_def isspecial_def example_session_def token_eval
      login_eval Let_def char_of_def bit_Suc_0_iff)

text \<open>
  The session of the example user refreshes at time 3000 while it is active. After the
  logout with its token the token is revoked, stays revoked when another session is
  opened and the token is presented again, and the refresh at time 3000, long before the
  expiry at 605800, returns the invalid-or-expired message and the tables unchanged. The
  logout from all devices, the change of password and the password reset revoke it as
  well.
\<close>

theorem revoked_token_never_refreshes_witness:
  "sessions session_db = [example_session ''s1'' ''u1'' ''j1''] \<and>
   refresh_token (example_session ''s1'' ''u1'' ''j1'') = session_token \<and>
   s_is_active (example_session ''s1'' ''u1'' ''j1'') \<and>
   map_sum id (fst \<circ> snd)
     (refresh_access_token utc_platform (default_settings ''k'') 3000 session_db session_token
        None None)
   = Inr (Some (create_access_token (default_settings ''k'') 3000 ''u1'' None
                  (Some [(''email'', JStr ''a@x.com''), (''role'', JStr ''user''),
                         (''session_id'', JStr ''s1'')]))) \<and>
   revoked logged_out_db session_token \<and>
   revoked (run utc_platform (default_settings ''k'') later_calls logged_out_db) session_token \<and>
   refresh_access_token utc_platform (default_settings ''k'') 3000
     (run utc_platform (default_settings ''k'') later_calls logged_out_db) session_token None None
   = Inr (run utc_platform (default_settings ''k'') later_calls logged_out_db, None,
          Some InvalidOrExpiredRefreshToken) \<and>
   map s_is_active
     (sessions (step utc_platform (default_settings ''k'') 1500
                  (LogoutUser example_user (Some session_token) False None None) session_db))
   = [False] \<and>
   revoked (fst (logout_user session_db example_user None True None None)) session_token \<and>
   change_password utc_platform (default_settings ''k'') 1500 ''s2'' session_db ''u1''
     example_password_change
   = Inr (committed session_db
            (change_password utc_platform (default_settings ''k'') 1500 ''s2'' session_db ''u1''
               example_password_change), True) \<and>
   revoked
     (committed session_db
        (change_password utc_platform (default_settings ''k'') 1500 ''s2'' session_db ''u1''
           example_password_change)) session_token \<and>
   reset_password utc_platform (default_settings ''k'') 1500 ''s3'' session_db
     (generate_password_reset_token (default_settings ''k'') 1000 ''a@x.com'')
     (map of_char ''N3w!Passw0rd'') None None
   = Inr (committed session_db
            (reset_password utc_platform (default_settings ''k'') 1500 ''s3'' session_db
               (generate_password_reset_token (default_settings ''k'') 1000 ''a@x.com'')
               (map of_char ''N3w!Passw0rd'') None None), True, None) \<and>
   revoked
     (committed session_db
        (reset_password utc_platform (default_settings ''k'') 1500 ''s3'' session_db
           (generate_password_reset_token (default_settings ''k'') 1000 ''a@x.com'')
           (map of_char ''N3w!Passw0rd'') None None)) session_token"
proof -
  let ?s = "example_session ''s1'' ''u1'' ''j1''"
  let ?cfg = "default_settings ''k''"
  let ?rt = "generate_password_reset_token ?cfg 1000 ''a@x.com''"
  let ?cp = "change_password utc_platform ?cfg 1500 ''s2'' session_db ''u1'' example_password_change"
  let ?rp = "reset_password utc_platform ?cfg 1500 ''s3'' session_db ?rt
               (map of_char ''N3w!Passw0rd'') None None"
  let ?L = "run utc_platform ?cfg later_calls logged_out_db"
  have k: "refresh_token ?s = session_token" "s_is_active ?s" "u_id example_user = ''u1''"
    "?s \<in> set (sessions session_db) \<and> s_user_id ?s = u_id example_user"
    by (simp_all add: example_session_def session_token_def session_db_tables example_user_def)
  have v: "password_validation.is_valid
             (validate_password_strength utc_platform ?cfg (map of_char ''N3w!Passw0rd''))"
    by (simp add: validate_password_strength_def default_settings_def utc_platform_def
        isspecial_def)
  have w: "map_sum id (fst \<circ> snd)
     (refresh_access_token utc_platform ?cfg 3000 session_db session_token None None)
   = Inr (Some (create_access_token ?cfg 3000 ''u1'' None
                  (Some [(''email'', JStr ''a@x.com''), (''role'', JStr ''user''),
                         (''session_id'', JStr ''s1'')])))"
    by (simp add: refresh_access_token_def session_db_tables example_session_def
        session_token_def token_eval session_is_expired_def get_user_by_id_def example_user_def
        Let_def)
  have f: "refresh_access_token utc_platform ?cfg 3000 d session_token None None
           = Inr (d, None, Some InvalidOrExpiredRefreshToken)"
    if "revoked d session_token" for d
  proof -
    have "find (\<lambda>s. refresh_token s = session_token \<and> s_is_active s) (sessions d) = None"
      using that by (auto simp: revoked_def list_all_iff find_None_iff)
    then show ?thesis
      by (simp add: refresh_access_token_def session_token_def token_eval)
  qed
  have l: "map s_is_active
     (sessions (step utc_platform ?cfg 1500
                  (LogoutUser example_user (Some session_token) False None None) session_db))
   = [False]"
    by (simp add: logout_user_def token_given_def session_db_tables k session_token_def
        create_refresh_token_def jwt_encode_def Let_def)
  have c: "map_sum id snd ?cp = Inr True"
    using v
    by (simp add: change_password_def get_user_by_id_def session_db_tables
        example_password_change_def example_user_def utc_platform_def Let_def)
  have r: "verify_password_reset_token ?cfg 1500 ?rt = Inr (Some (JStr ''a@x.com''))"
    "get_user_by_email session_db ''a@x.com'' = Some example_user"
    by (simp_all add: verify_password_reset_token_def token_eval get_user_by_email_def
        session_db_tables str_lower_def lower_char_def ascii_upper_def example_user_def)
  have p: "map_sum id snd ?rp = Inr (True, None)"
    unfolding reset_password_def r
    using v
    by (simp add: session_db_tables get_user_by_email_def reset_is_valid_def
        reset_is_expired_def str_lower_def lower_char_def ascii_upper_def example_user_def
        truthy.simps Let_def)
  note t = revoked_token_never_refreshes [where d = logged_out_db and tok = session_token
      and px = utc_platform and cfg = ?cfg and cs = later_calls and now = 3000 and ip = None
      and ua = None and d' = logged_out_db and a = session_token and m = None
      and ?d0.0 = session_db and t = 1500
      and c = "LogoutUser example_user (Some session_token) False None None"
      and s = ?s and ?cs0.0 = session_calls and usr = example_user and ?ip1.0 = None
      and ?ua1.0 = None and rtok = None and ?t1.0 = 1500 and ?salt1.0 = "''s2''"
      and pc = example_password_change and ?d1.0 = "committed session_db ?cp"
      and ?t2.0 = 1500 and ?rtok2.0 = ?rt and addr = "''a@x.com''" and ?salt2.0 = "''s3''"
      and pw = "map of_char ''N3w!Passw0rd''" and ?ip2.0 = None and ?ua2.0 = None
      and ?d2.0 = "committed session_db ?rp" and ?m2.0 = None, folded session_db_def]
  have e1: "?cp = Inr (committed session_db ?cp, True)"
    using c by (rule Inr_committed)
  have e2: "?rp = Inr (committed session_db ?rp, True, None)"
    using p by (rule Inr_committed)
  have g1: "revoked logged_out_db session_token"
    "revoked (fst (logout_user session_db example_user None True None None)) session_token"
    using t k unfolding logged_out_db_def by simp_all
  have g2: "revoked ?L session_token"
    using t g1(1) by blast
  have g3: "revoked (committed session_db ?cp) session_token"
    using t k e1 by simp
  have g4: "revoked (committed session_db ?rp) session_token"
    using t k e2 r by simp
  show ?thesis
    using session_db_tables(2) k(1,2) w g1 g2 f [OF g2] l e1 g3 e2 g4
    by (intro conjI)
qed

end
